theory Spec2Isabelle
  imports Complex_Main
begin

section \<open>Numbers and constants\<close>

text \<open>
  JavaScript numbers are modelled as mathematical reals (rounding is not modelled);
  counters that only ever hold whole numbers (score, combo count) are integers.
  The one place where a non-finite value decides a result, the quotient \<open>0/0\<close> in
  \<open>lineIntersectsCircle\<close>, is written out as a branch of the model.
  The clock (\<open>performance.now()\<close>, \<open>Date.now()\<close>) is an argument of the
  functions that read it.
\<close>

definition GRAVITY :: real where
  "GRAVITY = 1000"

definition CANVAS_OVERFLOW_THRESHOLD :: real where
  "CANVAS_OVERFLOW_THRESHOLD = 100"

definition INITIAL_SPAWN_INTERVAL :: real where
  "INITIAL_SPAWN_INTERVAL = 1000"

definition MIN_SPAWN_INTERVAL :: real where
  "MIN_SPAWN_INTERVAL = 300"

definition COMBO_THRESHOLD :: real where
  "COMBO_THRESHOLD = 800"

definition DIFFICULTY_INCREASE_RATE :: real where
  "DIFFICULTY_INCREASE_RATE = 10"

section \<open>GeometryUtils\<close>

text \<open>
  \<open>lineIntersectsCircle\<close>. The source divides by \<open>dx * dx + dy * dy\<close> with no guard.
  Over the reals that sum is zero only when \<open>dx = dy = 0\<close>, and then the numerator is
  zero too, so the JavaScript quotient is \<open>0/0 = NaN\<close>. \<open>Math.min(1, NaN)\<close>,
  \<open>Math.max(0, NaN)\<close>, \<open>x1 + NaN * dx\<close> and \<open>Math.hypot(NaN, NaN)\<close> are all
  \<open>NaN\<close>, and \<open>NaN <= radius\<close> is \<open>false\<close>. HOL's own \<open>0 / 0\<close> is \<open>0\<close>, so
  this path is a branch of the model: \<open>projection\<close> returns \<open>None\<close> for \<open>NaN\<close>.
\<close>

definition projection :: "real \<Rightarrow> real \<Rightarrow> real \<Rightarrow> real \<Rightarrow> real \<Rightarrow> real \<Rightarrow> real option" where
  "projection x1 y1 x2 y2 cx cy =
     (let dx = x2 - x1; dy = y2 - y1 in
      if dx * dx + dy * dy = 0 then None
      else Some (((cx - x1) * dx + (cy - y1) * dy) / (dx * dx + dy * dy)))"

definition hypot :: "real \<Rightarrow> real \<Rightarrow> real" where
  "hypot a b = sqrt (a * a + b * b)"

definition lineIntersectsCircle ::
  "real \<Rightarrow> real \<Rightarrow> real \<Rightarrow> real \<Rightarrow> real \<Rightarrow> real \<Rightarrow> real \<Rightarrow> bool" where
  "lineIntersectsCircle x1 y1 x2 y2 cx cy radius =
     (let dx = x2 - x1; dy = y2 - y1 in
      case projection x1 y1 x2 y2 cx cy of
        None \<Rightarrow> False
      | Some t0 \<Rightarrow>
          (let t = max 0 (min 1 t0);
               closestX = x1 + t * dx;
               closestY = y1 + t * dy;
               distance = hypot (closestX - cx) (closestY - cy)
           in distance \<le> radius))"

definition isCircleOutsideCanvas ::
  "real \<Rightarrow> real \<Rightarrow> real \<Rightarrow> real \<Rightarrow> real \<Rightarrow> real \<Rightarrow> bool" where
  "isCircleOutsideCanvas cx cy radius canvasWidth canvasHeight threshold =
     (cx + radius < - threshold \<or>
      cx - radius > canvasWidth + threshold \<or>
      cy + radius < - threshold \<or>
      cy - radius > canvasHeight + threshold)"

section \<open>Entities\<close>

text \<open>
  Each class is a record; a subclass extends the record of \<open>GameObject\<close>, so a method
  of the base class applies to every subclass (\<open>super.update\<close>). Fields that only
  the renderer reads (emoji, colours, shadow, sizes of particles, the text and scale of
  a combo splash) are left out. The records that share a field name with a later one are
  declared first and their fields are written with the record's name.
\<close>

record HighScoreEntry =
  score :: int
  date :: int

record SwipePoint =
  x :: real
  y :: real
  t :: real

record GameObject =
  x :: real
  y :: real
  vx :: real
  vy :: real
  rotation :: real
  rotationSpeed :: real
  life :: real
  maxLife :: real
  isAlive :: bool

record Particle = GameObject +
  type :: string

record Fruit = GameObject +
  type :: string
  radius :: real
  sliced :: bool

record FruitSlice = GameObject +
  half :: string

record ComboSplash = GameObject +
  comboText :: string

text \<open>\<open>GameObject.update\<close>, \<open>GameObject.shouldRemove\<close>, \<open>GameObject.destroy\<close>.\<close>

definition GameObject_update :: "real \<Rightarrow> 'a GameObject_scheme \<Rightarrow> 'a GameObject_scheme" where
  "GameObject_update deltaTime obj =
     (let o1 = obj\<lparr>x := x obj + vx obj * deltaTime, y := y obj + vy obj * deltaTime\<rparr>;
          o2 = o1\<lparr>vy := vy o1 + GRAVITY * deltaTime\<rparr>;
          o3 = o2\<lparr>rotation := rotation o2 + rotationSpeed o2 * deltaTime\<rparr>
      in if maxLife o3 > 0
         then (let o4 = o3\<lparr>life := life o3 - deltaTime\<rparr>
               in if life o4 \<le> 0 then o4\<lparr>isAlive := False\<rparr> else o4)
         else o3)"

definition GameObject_shouldRemove :: "real \<Rightarrow> real \<Rightarrow> 'a GameObject_scheme \<Rightarrow> bool" where
  "GameObject_shouldRemove canvasWidth canvasHeight obj =
     (\<not> isAlive obj \<or> y obj > canvasHeight + CANVAS_OVERFLOW_THRESHOLD)"

definition GameObject_destroy :: "'a GameObject_scheme \<Rightarrow> 'a GameObject_scheme" where
  "GameObject_destroy obj = obj\<lparr>isAlive := False\<rparr>"

text \<open>\<open>Fruit\<close>: \<open>update\<close> calls \<open>super.update\<close>, then resets \<open>life\<close> and \<open>isAlive\<close>.\<close>

definition Fruit_update :: "real \<Rightarrow> Fruit \<Rightarrow> Fruit" where
  "Fruit_update deltaTime f =
     (let f1 = GameObject_update deltaTime f;
          f2 = f1\<lparr>life := maxLife f1\<rparr>
      in f2\<lparr>isAlive := True\<rparr>)"

definition Fruit_shouldRemove :: "real \<Rightarrow> real \<Rightarrow> Fruit \<Rightarrow> bool" where
  "Fruit_shouldRemove canvasWidth canvasHeight f =
     isCircleOutsideCanvas (x f) (y f) (radius f) canvasWidth canvasHeight
       CANVAS_OVERFLOW_THRESHOLD"

definition intersectsLine :: "Fruit \<Rightarrow> real \<Rightarrow> real \<Rightarrow> real \<Rightarrow> real \<Rightarrow> bool" where
  "intersectsLine f x1 y1 x2 y2 = lineIntersectsCircle x1 y1 x2 y2 (x f) (y f) (radius f)"

text \<open>\<open>FruitSlice\<close>: \<open>update\<close> is \<open>super.update\<close> and nothing else.\<close>

definition FruitSlice_update :: "real \<Rightarrow> FruitSlice \<Rightarrow> FruitSlice" where
  "FruitSlice_update deltaTime s = GameObject_update deltaTime s"

definition FruitSlice_shouldRemove :: "real \<Rightarrow> real \<Rightarrow> FruitSlice \<Rightarrow> bool" where
  "FruitSlice_shouldRemove canvasWidth canvasHeight s =
     (\<not> isAlive s \<or>
      y s > canvasHeight + CANVAS_OVERFLOW_THRESHOLD \<or>
      x s < - CANVAS_OVERFLOW_THRESHOLD \<or>
      x s > canvasWidth + CANVAS_OVERFLOW_THRESHOLD)"

text \<open>\<open>Particle\<close>: the type is one of \<open>juice\<close>, \<open>explosion\<close>, \<open>wallSplash\<close>.\<close>

definition Particle_update :: "real \<Rightarrow> Particle \<Rightarrow> Particle" where
  "Particle_update deltaTime p =
     (let p1 = GameObject_update deltaTime p in
      if Particle.type p1 = ''juice'' then p1\<lparr>vy := vy p1 + GRAVITY * deltaTime * 0.5\<rparr>
      else if Particle.type p1 = ''wallSplash'' then p1\<lparr>vx := 0, vy := 0\<rparr>
      else p1)"

definition Particle_shouldRemove :: "real \<Rightarrow> real \<Rightarrow> Particle \<Rightarrow> bool" where
  "Particle_shouldRemove canvasWidth canvasHeight p =
     (if \<not> isAlive p then True
      else if Particle.type p = ''wallSplash'' then False
      else (y p > canvasHeight + CANVAS_OVERFLOW_THRESHOLD \<or>
            x p < - CANVAS_OVERFLOW_THRESHOLD \<or>
            x p > canvasWidth + CANVAS_OVERFLOW_THRESHOLD))"

text \<open>
  \<open>ComboSplash\<close>: \<open>update\<close> calls \<open>super.update\<close> and then recomputes the scale of the
  drawn text, which is not part of this model.
\<close>

definition ComboSplash_update :: "real \<Rightarrow> ComboSplash \<Rightarrow> ComboSplash" where
  "ComboSplash_update deltaTime c = GameObject_update deltaTime c"

definition ComboSplash_shouldRemove :: "real \<Rightarrow> real \<Rightarrow> ComboSplash \<Rightarrow> bool" where
  "ComboSplash_shouldRemove canvasWidth canvasHeight c = (\<not> isAlive c)"

section \<open>GameState\<close>

text \<open>
  The browser's \<open>localStorage\<close>, as far as the game uses it: the two items it writes.
  A write is taken to succeed (the source catches and ignores a failing write).
\<close>

record Storage =
  bestScoreItem :: "int option"
  highScoresItem :: "HighScoreEntry list option"

record GameState =
  score :: int
  gameOver :: bool
  elapsedTime :: real
  fruits :: "Fruit list"
  slices :: "FruitSlice list"
  bombExplosions :: "Particle list"
  juiceParticles :: "Particle list"
  wallSplashes :: "Particle list"
  comboSplashes :: "ComboSplash list"
  lastTime :: "real option"
  lastSpawnTime :: real
  lastSliceTime :: real
  lastSwipeSoundTime :: real
  comboCount :: int
  spawnInterval :: real
  lastComboSoundCount :: int
  swipePoints :: "SwipePoint list"
  isSwiping :: bool
  bestScore :: int
  highScores :: "HighScoreEntry list"

text \<open>\<open>GameState.reset\<close>; \<open>now\<close> is the value of \<open>performance.now()\<close>.\<close>

definition reset :: "real \<Rightarrow> GameState \<Rightarrow> GameState" where
  "reset now g =
     g\<lparr>score := 0, gameOver := False, elapsedTime := 0,
       fruits := [], slices := [], bombExplosions := [], juiceParticles := [],
       wallSplashes := [], comboSplashes := [],
       lastTime := None, GameState.lastSpawnTime := now, lastSliceTime := 0,
       lastSwipeSoundTime := 0,
       comboCount := 0, spawnInterval := INITIAL_SPAWN_INTERVAL, lastComboSoundCount := 0,
       swipePoints := [], isSwiping := False\<rparr>"

definition updateDifficulty :: "GameState \<Rightarrow> GameState" where
  "updateDifficulty g =
     g\<lparr>spawnInterval :=
         max MIN_SPAWN_INTERVAL
           (INITIAL_SPAWN_INTERVAL - elapsedTime g * DIFFICULTY_INCREASE_RATE)\<rparr>"

definition updateComboStatus :: "real \<Rightarrow> GameState \<Rightarrow> GameState" where
  "updateComboStatus now g =
     (if now - lastSliceTime g > COMBO_THRESHOLD
      then g\<lparr>comboCount := 0, lastComboSoundCount := 0\<rparr>
      else g)"

definition registerSlice :: "real \<Rightarrow> GameState \<Rightarrow> GameState" where
  "registerSlice now g =
     (let g1 = (if now - lastSliceTime g < COMBO_THRESHOLD
                then g\<lparr>comboCount := comboCount g + 1\<rparr>
                else g\<lparr>comboCount := 1\<rparr>);
          g2 = g1\<lparr>lastSliceTime := now\<rparr>
      in g2\<lparr>score := score g2 + comboCount g2\<rparr>)"

definition getDisplayCombo :: "GameState \<Rightarrow> int option" where
  "getDisplayCombo g = (if comboCount g \<ge> 2 then Some (comboCount g) else None)"

text \<open>
  \<open>saveHighScore\<close>: push, sort with the comparator \<open>b.score - a.score\<close> (descending;
  \<open>Array.prototype.sort\<close> is stable, as \<open>sort_key\<close> is), keep the first ten, write
  the list to the storage. \<open>dateNow\<close> is the value of \<open>Date.now()\<close>.
\<close>

definition saveHighScore :: "int \<Rightarrow> int \<Rightarrow> GameState \<times> Storage \<Rightarrow> GameState \<times> Storage" where
  "saveHighScore sc dateNow gs =
     (let g = fst gs; st = snd gs;
          entry = \<lparr>HighScoreEntry.score = sc, date = dateNow\<rparr>;
          pushed = highScores g @ [entry];
          ordered = sort_key (\<lambda>e. - HighScoreEntry.score e) pushed;
          kept = take 10 ordered
      in (g\<lparr>highScores := kept\<rparr>, st\<lparr>highScoresItem := Some kept\<rparr>))"

definition triggerGameOver :: "int \<Rightarrow> GameState \<times> Storage \<Rightarrow> GameState \<times> Storage" where
  "triggerGameOver dateNow gs =
     (let g1 = (fst gs)\<lparr>gameOver := True\<rparr>; st = snd gs;
          gs2 = (if score g1 > bestScore g1
                 then (g1\<lparr>bestScore := score g1\<rparr>, st\<lparr>bestScoreItem := Some (score g1)\<rparr>)
                 else (g1, st))
      in saveHighScore (score (fst gs2)) dateNow gs2)"

section \<open>The global objects\<close>

text \<open>
  The source keeps one global instance of each manager. \<open>World\<close> holds them, the
  storage, and two traces that stand for calls into collaborators that are not modelled:
  \<open>audioCalls\<close> (the sounds asked of the audio manager, oldest first) and
  \<open>effectCalls\<close> (the calls of \<open>handleBombExplosion\<close> and \<open>handleFruitSlice\<close>).
  Those two handlers create particles with random values and flash the screen; they write
  the effect collections, \<open>lastComboSoundCount\<close> and the screen-shake data of the game
  state only, and the model leaves these as they are. \<open>collisionCalls\<close> is the trace
  of the calls of \<open>handleFruitCollision\<close>, by the index of the fruit in
  \<open>gameState.fruits\<close>; the index stands for the object reference, which is sound
  within one collision pass since the pass never adds or removes a fruit.
\<close>

datatype Sound = BombCutSound | FruitCutSound | BombSpawnSound | FruitSpawnSound

datatype EffectCall = HandleBombExplosion nat | HandleFruitSlice nat

record SpawnManager =
  lastSpawnTime :: real
  spawnTimer :: real
  baseSpawnRate :: real
  currentSpawnRate :: real
  spawnPatternIndex :: nat
  burstSpawnActive :: bool
  burstSpawnCount :: nat
  burstSpawnMax :: nat

record CollisionDetector =
  processedCollisions :: "nat set"
  lastCollisionTime :: real

record World =
  gameState :: GameState
  spawnManager :: SpawnManager
  collisionDetector :: CollisionDetector
  localStorage :: Storage
  audioCalls :: "Sound list"
  effectCalls :: "EffectCall list"
  collisionCalls :: "nat list"

definition playSound :: "Sound \<Rightarrow> World \<Rightarrow> World" where
  "playSound sound w = w\<lparr>audioCalls := audioCalls w @ [sound]\<rparr>"

section \<open>Fruit.slice\<close>

record SliceResult =
  resultType :: string
  position :: "real \<times> real"
  success :: bool

text \<open>
  \<open>Fruit.slice\<close> is a method of the fruit \<open>f\<close>: it returns the result (\<open>None\<close> for
  \<open>null\<close>), the fruit as the call leaves it, and the globals as the call leaves them.
\<close>

definition Fruit_slice ::
  "real \<Rightarrow> int \<Rightarrow> Fruit \<Rightarrow> World \<Rightarrow> SliceResult option \<times> Fruit \<times> World" where
  "Fruit_slice now dateNow f w =
     (if sliced f then (None, f, w)
      else
        (let f1 = f\<lparr>sliced := True\<rparr>;
             w1 = w\<lparr>gameState := registerSlice now (gameState w)\<rparr>
         in if Fruit.type f1 = ''bomb''
            then (let w2 = playSound BombCutSound w1;
                      gs = triggerGameOver dateNow (gameState w2, localStorage w2);
                      w3 = w2\<lparr>gameState := fst gs, localStorage := snd gs\<rparr>
                  in (Some \<lparr>resultType = ''bomb'', position = (x f1, y f1), success = False\<rparr>,
                      f1, w3))
            else (let w2 = playSound FruitCutSound w1
                  in (Some \<lparr>resultType = ''fruit'', position = (x f1, y f1), success = True\<rparr>,
                      f1, w2))))"

section \<open>SpawnManager\<close>

definition getActiveEffectCount :: "GameState \<Rightarrow> nat" where
  "getActiveEffectCount g =
     length (juiceParticles g) + length (bombExplosions g) + length (wallSplashes g) +
     length (slices g) + length (comboSplashes g)"

definition SpawnManager_updateDifficulty :: "World \<Rightarrow> World" where
  "SpawnManager_updateDifficulty w =
     (let sm = spawnManager w;
          rate = max MIN_SPAWN_INTERVAL
                   (baseSpawnRate sm - elapsedTime (gameState w) * DIFFICULTY_INCREASE_RATE)
      in w\<lparr>spawnManager := sm\<lparr>currentSpawnRate := rate\<rparr>,
           gameState := (gameState w)\<lparr>spawnInterval := rate\<rparr>\<rparr>)"

text \<open>
  \<open>spawnItem\<close>; \<open>newFruit\<close> is what \<open>Fruit.createRandom\<close> returns (it draws random
  numbers and reads the canvas size).
\<close>

definition fruitCap :: nat where
  "fruitCap = 18"

definition spawnItem :: "Fruit \<Rightarrow> World \<Rightarrow> World" where
  "spawnItem newFruit w =
     (if length (fruits (gameState w)) \<ge> fruitCap then w
      else
        (let w1 = w\<lparr>gameState := (gameState w)\<lparr>fruits := fruits (gameState w) @ [newFruit]\<rparr>\<rparr>
         in if Fruit.type newFruit = ''bomb''
            then playSound BombSpawnSound w1
            else playSound FruitSpawnSound w1))"

definition pressureFactor :: "GameState \<Rightarrow> real" where
  "pressureFactor g =
     (let activeEffects = real (getActiveEffectCount g);
          activeFruits = real (length (fruits g));
          pressure = activeFruits * 2 + activeEffects * 0.25
      in if pressure > 150 then 2.0 else if pressure > 100 then 1.5
         else if pressure > 60 then 1.25 else 1.0)"

text \<open>
  \<open>SpawnManager.update\<close>. The call of \<open>handleSpecialSpawnPatterns\<close> at its end returns
  at once in the source and is left out.
\<close>

definition SpawnManager_update :: "real \<Rightarrow> real \<Rightarrow> Fruit \<Rightarrow> World \<Rightarrow> World" where
  "SpawnManager_update deltaTime now newFruit w =
     (if gameOver (gameState w) then w
      else
        (let pf = pressureFactor (gameState w);
             sm = spawnManager w;
             w1 = w\<lparr>spawnManager :=
                     sm\<lparr>spawnTimer := spawnTimer sm + deltaTime * 1000 * (1 / pf)\<rparr>\<rparr>;
             w2 = SpawnManager_updateDifficulty w1
         in if spawnTimer (spawnManager w2) \<ge> currentSpawnRate (spawnManager w2)
               \<and> currentSpawnRate (spawnManager w2) > 0
            then (let w3 = spawnItem newFruit w2
                  in w3\<lparr>spawnManager :=
                         (spawnManager w3)\<lparr>spawnTimer := 0,
                                           SpawnManager.lastSpawnTime := now\<rparr>\<rparr>)
            else w2))"

definition forceSpawn :: "Fruit \<Rightarrow> World \<Rightarrow> World" where
  "forceSpawn newFruit w =
     (let w1 = spawnItem newFruit w
      in w1\<lparr>spawnManager := (spawnManager w1)\<lparr>spawnTimer := 0\<rparr>\<rparr>)"

section \<open>The cull loops\<close>

text \<open>
  \<open>updateFruits\<close>, \<open>updateParticleArray\<close> and \<open>updateGameObjectArray\<close> are the same
  loop: from the last index down, update the object, then splice it out when
  \<open>shouldRemove\<close> says so. A splice at index \<open>i\<close> moves only objects the loop has left
  behind, so the loop is a right fold; the method the object's class gives is an argument.
\<close>

definition cullLoop :: "('a \<Rightarrow> 'a) \<Rightarrow> ('a \<Rightarrow> bool) \<Rightarrow> 'a list \<Rightarrow> 'a list" where
  "cullLoop upd shouldGo objs =
     foldr (\<lambda>obj kept. (let obj1 = upd obj in if shouldGo obj1 then kept else obj1 # kept))
       objs []"

definition updateFruits :: "real \<Rightarrow> real \<Rightarrow> real \<Rightarrow> GameState \<Rightarrow> GameState" where
  "updateFruits deltaTime canvasWidth canvasHeight g =
     g\<lparr>fruits := cullLoop (Fruit_update deltaTime)
                   (Fruit_shouldRemove canvasWidth canvasHeight) (fruits g)\<rparr>"

definition updateParticleArray :: "real \<Rightarrow> real \<Rightarrow> real \<Rightarrow> Particle list \<Rightarrow> Particle list" where
  "updateParticleArray deltaTime canvasWidth canvasHeight ps =
     cullLoop (Particle_update deltaTime) (Particle_shouldRemove canvasWidth canvasHeight) ps"

definition updateEffects :: "real \<Rightarrow> real \<Rightarrow> real \<Rightarrow> GameState \<Rightarrow> GameState" where
  "updateEffects deltaTime canvasWidth canvasHeight g =
     g\<lparr>juiceParticles := updateParticleArray deltaTime canvasWidth canvasHeight (juiceParticles g),
       bombExplosions := updateParticleArray deltaTime canvasWidth canvasHeight (bombExplosions g),
       wallSplashes := updateParticleArray deltaTime canvasWidth canvasHeight (wallSplashes g),
       slices := cullLoop (FruitSlice_update deltaTime)
                   (FruitSlice_shouldRemove canvasWidth canvasHeight) (slices g),
       comboSplashes := cullLoop (ComboSplash_update deltaTime)
                          (ComboSplash_shouldRemove canvasWidth canvasHeight) (comboSplashes g)\<rparr>"

section \<open>CollisionDetector\<close>

definition handleFruitCollision :: "real \<Rightarrow> int \<Rightarrow> nat \<Rightarrow> World \<Rightarrow> World" where
  "handleFruitCollision now dateNow i w =
     (let cd = collisionDetector w;
          w1 = w\<lparr>collisionDetector := cd\<lparr>processedCollisions := insert i (processedCollisions cd)\<rparr>,
                 collisionCalls := collisionCalls w @ [i]\<rparr>;
          sliceResult = Fruit_slice now dateNow (fruits (gameState w1) ! i) w1;
          f1 = fst (snd sliceResult);
          w2 = snd (snd sliceResult);
          w3 = w2\<lparr>gameState := (gameState w2)\<lparr>fruits := (fruits (gameState w2))[i := f1]\<rparr>\<rparr>;
          w4 = (case fst sliceResult of
                  None \<Rightarrow> w3
                | Some r \<Rightarrow>
                    if resultType r = ''bomb''
                    then w3\<lparr>effectCalls := effectCalls w3 @ [HandleBombExplosion i]\<rparr>
                    else w3\<lparr>effectCalls := effectCalls w3 @ [HandleFruitSlice i]\<rparr>)
      in w4\<lparr>collisionDetector := (collisionDetector w4)\<lparr>lastCollisionTime := now\<rparr>\<rparr>)"

definition checkCandidate ::
  "real \<Rightarrow> int \<Rightarrow> real \<Rightarrow> real \<Rightarrow> real \<Rightarrow> real \<Rightarrow> nat \<Rightarrow> World \<Rightarrow> World" where
  "checkCandidate now dateNow x1 y1 x2 y2 i w =
     (let fruit = fruits (gameState w) ! i in
      if sliced fruit \<or> i \<in> processedCollisions (collisionDetector w) then w
      else if intersectsLine fruit x1 y1 x2 y2 then handleFruitCollision now dateNow i w
      else w)"

definition checkLineSegmentCollisionsForCandidates ::
  "real \<Rightarrow> int \<Rightarrow> real \<Rightarrow> real \<Rightarrow> real \<Rightarrow> real \<Rightarrow> nat list \<Rightarrow> World \<Rightarrow> World" where
  "checkLineSegmentCollisionsForCandidates now dateNow x1 y1 x2 y2 candidates w =
     fold (checkCandidate now dateNow x1 y1 x2 y2) candidates w"

text \<open>
  The bounding box of the tested points. The source starts from
  \<open>(Infinity, Infinity, -Infinity, -Infinity)\<close>; the list has a first point (the caller
  checked that it has two), and after that point the box is the point itself.
\<close>

definition trailBox :: "SwipePoint list \<Rightarrow> real \<times> real \<times> real \<times> real" where
  "trailBox ps =
     fold (\<lambda>p (minX, minY, maxX, maxY).
             (if SwipePoint.x p < minX then SwipePoint.x p else minX,
              if SwipePoint.y p < minY then SwipePoint.y p else minY,
              if SwipePoint.x p > maxX then SwipePoint.x p else maxX,
              if SwipePoint.y p > maxY then SwipePoint.y p else maxY))
       (tl ps)
       (SwipePoint.x (hd ps), SwipePoint.y (hd ps), SwipePoint.x (hd ps), SwipePoint.y (hd ps))"

definition isCandidate :: "real \<times> real \<times> real \<times> real \<Rightarrow> Fruit \<Rightarrow> bool" where
  "isCandidate box f =
     (case box of (minX, minY, maxX, maxY) \<Rightarrow>
        (let bLeft = x f - radius f; bRight = x f + radius f;
             bTop = y f - radius f; bBottom = y f + radius f
         in if sliced f then False
            else if bRight < minX \<or> bLeft > maxX \<or> bBottom < minY \<or> bTop > maxY then False
            else True))"

definition checkSwipeCollisions :: "real \<Rightarrow> int \<Rightarrow> World \<Rightarrow> World" where
  "checkSwipeCollisions now dateNow w =
     (let swipe = swipePoints (gameState w) in
      if length swipe < 2 then w
      else
        (let start = length swipe - (6 + 1);
             tested = drop start swipe;
             inflate = 80;
             box = (case trailBox tested of (minX, minY, maxX, maxY) \<Rightarrow>
                      (minX - inflate, minY - inflate, maxX + inflate, maxY + inflate));
             fs = fruits (gameState w);
             candidates = filter (\<lambda>i. isCandidate box (fs ! i)) [0..<length fs]
         in fold (\<lambda>(p1, p2).
                    checkLineSegmentCollisionsForCandidates now dateNow
                      (SwipePoint.x p1) (SwipePoint.y p1) (SwipePoint.x p2) (SwipePoint.y p2)
                      candidates)
              (zip tested (tl tested)) w))"

definition CollisionDetector_update :: "real \<Rightarrow> int \<Rightarrow> World \<Rightarrow> World" where
  "CollisionDetector_update now dateNow w =
     (let w1 = w\<lparr>collisionDetector := (collisionDetector w)\<lparr>processedCollisions := {}\<rparr>\<rparr> in
      if \<not> isSwiping (gameState w1) \<or> length (swipePoints (gameState w1)) < 2 then w1
      else checkSwipeCollisions now dateNow w1)"

section \<open>GameEngine\<close>

text \<open>
  The engine's fields that the loop reads or writes. \<open>renderCalls\<close> counts the calls
  of \<open>this.render()\<close> and \<open>frameRequests\<close> the calls of \<open>requestAnimationFrame\<close>;
  neither is a field of the source. The frame-time history and the fps estimate
  (\<open>updatePerformanceMetrics\<close>) are not modelled.
\<close>

record GameEngine =
  isRunning :: bool
  isPaused :: bool
  lastFrameTime :: "real option"
  frameCount :: nat
  gameOverLogged :: bool
  accumulator :: real
  fixedDelta :: real
  renderCalls :: nat
  frameRequests :: nat

definition maxIterations :: nat where
  "maxIterations = 8"

text \<open>
  The fixed-step loop of \<open>gameLoop\<close>. \<open>upd\<close> is \<open>GameEngine.update\<close>, which works on
  the global objects and draws random numbers when it spawns; it is an argument here.
  The result is the number of iterations, the accumulator and the globals.
\<close>

function stepLoop ::
  "(real \<Rightarrow> World \<Rightarrow> World) \<Rightarrow> real \<Rightarrow> nat \<Rightarrow> real \<Rightarrow> World \<Rightarrow> nat \<times> real \<times> World" where
  "stepLoop upd step iterations acc w =
     (if acc \<ge> step \<and> iterations < maxIterations
      then stepLoop upd step (iterations + 1) (acc - step) (upd step w)
      else (iterations, acc, w))"
  by pat_completeness auto
termination
  by (relation "measure (\<lambda>(upd, step, iterations, acc, w). maxIterations - iterations)") auto

definition stopGame :: "GameEngine \<Rightarrow> GameEngine" where
  "stopGame e = e\<lparr>isRunning := False, isPaused := False\<rparr>"

definition pauseGame :: "GameEngine \<Rightarrow> GameEngine" where
  "pauseGame e = (if \<not> isRunning e then e else e\<lparr>isPaused := True\<rparr>)"

definition resumeGame :: "GameEngine \<Rightarrow> GameEngine" where
  "resumeGame e = (if \<not> isRunning e then e else e\<lparr>isPaused := False, lastFrameTime := None\<rparr>)"

definition handleGameOver :: "GameEngine \<Rightarrow> GameEngine" where
  "handleGameOver e = stopGame (if \<not> gameOverLogged e then e\<lparr>gameOverLogged := True\<rparr> else e)"

text \<open>\<open>!this.lastFrameTime\<close> holds for \<open>null\<close> and for the number \<open>0\<close>.\<close>

definition noBaseline :: "real option \<Rightarrow> bool" where
  "noBaseline v = (case v of None \<Rightarrow> True | Some ts \<Rightarrow> ts = 0)"

definition gameLoop ::
  "(real \<Rightarrow> World \<Rightarrow> World) \<Rightarrow> real \<Rightarrow> GameEngine \<times> World \<Rightarrow> GameEngine \<times> World" where
  "gameLoop upd timestamp ew =
     (let e0 = fst ew; w = snd ew;
          e = (if isRunning e0 then e0\<lparr>frameRequests := frameRequests e0 + 1\<rparr> else e0)
      in if isPaused e then (e, w)
         else if noBaseline (lastFrameTime e) then (e\<lparr>lastFrameTime := Some timestamp\<rparr>, w)
         else
           (let deltaTime = (timestamp - the (lastFrameTime e)) / 1000;
                e1 = e\<lparr>lastFrameTime := Some timestamp\<rparr>;
                clamped = min deltaTime (1 / 15);
                e2 = e1\<lparr>accumulator := accumulator e1 + clamped\<rparr>;
                step = fixedDelta e2;
                looped = stepLoop upd step 0 (accumulator e2) w;
                e3 = e2\<lparr>accumulator := fst (snd looped)\<rparr>;
                w3 = snd (snd looped);
                e4 = e3\<lparr>renderCalls := renderCalls e3 + 1\<rparr>;
                e5 = (if gameOver (gameState w3) \<and> isRunning e4 then handleGameOver e4 else e4)
            in (e5\<lparr>frameCount := frameCount e5 + 1\<rparr>, w3)))"

text \<open>\<open>updateGameState\<close>, the first thing \<open>GameEngine.update\<close> does after trimming the trail.\<close>

definition updateGameState :: "real \<Rightarrow> World \<Rightarrow> World" where
  "updateGameState deltaTime w =
     w\<lparr>gameState := (gameState w)\<lparr>elapsedTime := elapsedTime (gameState w) + deltaTime\<rparr>\<rparr>"

text \<open>
  \<open>startGame\<close> with \<open>resetAllSystems\<close>; the input manager's reset clears the trail
  and the swiping flag, which \<open>GameState.reset\<close> has done already.
\<close>

definition SpawnManager_reset :: "real \<Rightarrow> SpawnManager \<Rightarrow> SpawnManager" where
  "SpawnManager_reset now sm =
     sm\<lparr>SpawnManager.lastSpawnTime := now, spawnTimer := 0,
        currentSpawnRate := baseSpawnRate sm, spawnPatternIndex := 0,
        burstSpawnActive := False, burstSpawnCount := 0\<rparr>"

definition CollisionDetector_reset :: "CollisionDetector \<Rightarrow> CollisionDetector" where
  "CollisionDetector_reset cd = cd\<lparr>processedCollisions := {}, lastCollisionTime := 0\<rparr>"

definition clearAllEffects :: "GameState \<Rightarrow> GameState" where
  "clearAllEffects g =
     g\<lparr>juiceParticles := [], bombExplosions := [], wallSplashes := [], slices := [],
       comboSplashes := []\<rparr>"

definition resetAllSystems :: "real \<Rightarrow> GameEngine \<times> World \<Rightarrow> GameEngine \<times> World" where
  "resetAllSystems now ew =
     (let e = fst ew; w = snd ew;
          w1 = w\<lparr>gameState := reset now (gameState w)\<rparr>;
          w2 = w1\<lparr>spawnManager := SpawnManager_reset now (spawnManager w1)\<rparr>;
          w3 = w2\<lparr>collisionDetector := CollisionDetector_reset (collisionDetector w2)\<rparr>;
          w4 = w3\<lparr>gameState := clearAllEffects (gameState w3)\<rparr>;
          w5 = w4\<lparr>gameState := (gameState w4)\<lparr>swipePoints := [], isSwiping := False\<rparr>\<rparr>
      in (e\<lparr>gameOverLogged := False\<rparr>, w5))"

definition startGame :: "real \<Rightarrow> GameEngine \<times> World \<Rightarrow> GameEngine \<times> World" where
  "startGame now ew =
     (if isRunning (fst ew) then ew
      else
        (let ew1 = resetAllSystems now ew;
             e1 = (fst ew1)\<lparr>accumulator := 0\<rparr>;
             e2 = e1\<lparr>isRunning := True, isPaused := False, lastFrameTime := None\<rparr>
         in (e2\<lparr>frameRequests := frameRequests e2 + 1\<rparr>, snd ew1)))"

section \<open>Initial objects\<close>

text \<open>The objects as their constructors leave them, for the concrete runs below.\<close>

definition newGameState :: "real \<Rightarrow> int \<Rightarrow> HighScoreEntry list \<Rightarrow> GameState" where
  "newGameState now best scores =
     \<lparr>score = 0, gameOver = False, elapsedTime = 0,
      fruits = [], slices = [], bombExplosions = [], juiceParticles = [],
      wallSplashes = [], comboSplashes = [],
      lastTime = None, GameState.lastSpawnTime = now, lastSliceTime = 0,
      lastSwipeSoundTime = 0,
      comboCount = 0, spawnInterval = INITIAL_SPAWN_INTERVAL, lastComboSoundCount = 0,
      swipePoints = [], isSwiping = False, bestScore = best, highScores = scores\<rparr>"

definition newSpawnManager :: SpawnManager where
  "newSpawnManager =
     \<lparr>lastSpawnTime = 0, spawnTimer = 0, baseSpawnRate = INITIAL_SPAWN_INTERVAL,
      currentSpawnRate = INITIAL_SPAWN_INTERVAL, spawnPatternIndex = 0,
      burstSpawnActive = False, burstSpawnCount = 0, burstSpawnMax = 3\<rparr>"

definition newCollisionDetector :: CollisionDetector where
  "newCollisionDetector = \<lparr>processedCollisions = {}, lastCollisionTime = 0\<rparr>"

definition newGameEngine :: GameEngine where
  "newGameEngine =
     \<lparr>isRunning = False, isPaused = False, lastFrameTime = None, frameCount = 0,
      gameOverLogged = False, accumulator = 0, fixedDelta = 1 / 120,
      renderCalls = 0, frameRequests = 0\<rparr>"

definition newWorld :: World where
  "newWorld =
     \<lparr>gameState = newGameState 0 0 [], spawnManager = newSpawnManager,
      collisionDetector = newCollisionDetector,
      localStorage = \<lparr>bestScoreItem = None, highScoresItem = None\<rparr>,
      audioCalls = [], effectCalls = [], collisionCalls = []\<rparr>"

text \<open>
  A fruit as \<open>new Fruit(x, y, vx, vy, type)\<close> leaves it, with the random rotation,
  rotation speed and radius given.
\<close>

definition newFruit :: "real \<Rightarrow> real \<Rightarrow> real \<Rightarrow> real \<Rightarrow> string \<Rightarrow> real \<Rightarrow> Fruit" where
  "newFruit px py pvx pvy ty r =
     \<lparr>x = px, y = py, vx = pvx, vy = pvy, rotation = 0, rotationSpeed = 0,
      life = 1, maxLife = 1, isAlive = True, Fruit.type = ty, radius = r, sliced = False\<rparr>"

definition newParticle :: "real \<Rightarrow> real \<Rightarrow> real \<Rightarrow> real \<Rightarrow> string \<Rightarrow> real \<Rightarrow> Particle" where
  "newParticle px py pvx pvy ty lifetime =
     \<lparr>x = px, y = py, vx = pvx, vy = pvy, rotation = 0, rotationSpeed = 0,
      life = lifetime, maxLife = lifetime, isAlive = True, Particle.type = ty\<rparr>"

definition newFruitSlice :: "real \<Rightarrow> real \<Rightarrow> real \<Rightarrow> real \<Rightarrow> string \<Rightarrow> FruitSlice" where
  "newFruitSlice px py pvx pvy h =
     \<lparr>x = px, y = py, vx = pvx, vy = pvy, rotation = 0, rotationSpeed = 0,
      life = 1, maxLife = 1, isAlive = True, half = h\<rparr>"

definition newComboSplash :: "string \<Rightarrow> real \<Rightarrow> real \<Rightarrow> ComboSplash" where
  "newComboSplash txt px py =
     \<lparr>x = px, y = py, vx = 0, vy = 0, rotation = 0, rotationSpeed = 0,
      life = 1, maxLife = 1, isAlive = True, comboText = txt\<rparr>"

section \<open>Vocabulary of the statements\<close>


text \<open>
  What a collision pass from \<open>w\<close> to \<open>w'\<close> has added to the trace of
  \<open>handleFruitCollision\<close> calls, and the processed set of a world.
\<close>

definition hitsSince :: "World \<Rightarrow> World \<Rightarrow> nat list" where
  "hitsSince w w' = drop (length (collisionCalls w)) (collisionCalls w')"

definition processed :: "World \<Rightarrow> nat set" where
  "processed w = processedCollisions (collisionDetector w)"

text \<open>
  The invariant of a collision pass that started in \<open>w0\<close>: the trace has grown by
  distinct fruits, which are the ones the pass has added to the processed set; each of
  them was unsliced at the start and is the same fruit with the flag set now, and every
  other fruit is as it was.
\<close>

definition passInv :: "World \<Rightarrow> World \<Rightarrow> bool" where
  "passInv w0 w =
     (collisionCalls w = collisionCalls w0 @ hitsSince w0 w \<and>
      distinct (hitsSince w0 w) \<and>
      processed w = processed w0 \<union> set (hitsSince w0 w) \<and>
      set (hitsSince w0 w) \<inter> processed w0 = {} \<and>
      length (fruits (gameState w)) = length (fruits (gameState w0)) \<and>
      (\<forall>j < length (fruits (gameState w0)).
         fruits (gameState w) ! j =
           (if j \<in> set (hitsSince w0 w) then (fruits (gameState w0) ! j)\<lparr>sliced := True\<rparr>
            else fruits (gameState w0) ! j)) \<and>
      (\<forall>j \<in> set (hitsSince w0 w).
         j < length (fruits (gameState w0)) \<and> \<not> sliced (fruits (gameState w0) ! j)))"

text \<open>
  The number of fixed steps one callback runs from the accumulator \<open>acc\<close>: the whole
  steps that fit, at most \<open>maxIterations\<close>.
\<close>

definition stepsDue :: "real \<Rightarrow> real \<Rightarrow> nat" where
  "stepsDue acc step = min maxIterations (nat \<lfloor>acc / step\<rfloor>)"

section \<open>Concrete objects for the examples\<close>

definition aBomb :: Fruit where
  "aBomb = newFruit 100 100 0 (-800) ''bomb'' 30"

definition bombWorld :: World where
  "bombWorld = newWorld\<lparr>gameState := (gameState newWorld)\<lparr>fruits := [aBomb]\<rparr>\<rparr>"

definition aFruit :: Fruit where
  "aFruit = newFruit 400 700 0 (-800) ''fruit'' 30"

definition dueWorld :: World where
  "dueWorld = newWorld\<lparr>spawnManager := newSpawnManager\<lparr>spawnTimer := 995\<rparr>\<rparr>"

definition fullWorld :: World where
  "fullWorld = dueWorld\<lparr>gameState := (gameState dueWorld)\<lparr>fruits := replicate 18 aFruit\<rparr>\<rparr>"

definition overWorld :: World where
  "overWorld = dueWorld\<lparr>gameState := (gameState dueWorld)\<lparr>gameOver := True\<rparr>\<rparr>"

definition farLeftFruit :: Fruit where
  "farLeftFruit = newFruit (-131) 300 0 0 ''fruit'' 30"

definition deadSplash :: Particle where
  "deadSplash = (newParticle 5000 5000 0 0 ''wallSplash'' 1)\<lparr>isAlive := False\<rparr>"

definition destroyedJuice :: Particle where
  "destroyedJuice = GameObject_destroy (newParticle 10 300 240 0 ''juice'' 1)"

definition expiringJuice :: Particle where
  "expiringJuice = newParticle 300 300 10 10 ''juice'' (1 / 240)"

definition freshJuice :: Particle where
  "freshJuice = newParticle 300 300 10 10 ''juice'' 1"

definition deadSlice :: FruitSlice where
  "deadSlice = (newFruitSlice 300 300 (-60) (-60) ''left'')\<lparr>isAlive := False\<rparr>"

definition deadCombo :: ComboSplash where
  "deadCombo = (newComboSplash ''Combo 2!'' 400 150)\<lparr>isAlive := False\<rparr>"

definition juiceState :: GameState where
  "juiceState = (newGameState 0 0 [])\<lparr>juiceParticles := [expiringJuice, freshJuice]\<rparr>"



definition swipeFruit :: Fruit where
  "swipeFruit = newFruit 100 100 0 0 ''fruit'' 30"

definition swipeWorld :: World where
  "swipeWorld =
     newWorld\<lparr>gameState := (gameState newWorld)
       \<lparr>fruits := [swipeFruit],
        swipePoints := [\<lparr>SwipePoint.x = 50, y = 100, t = 0\<rparr>,
                        \<lparr>SwipePoint.x = 100, y = 100, t = 1\<rparr>,
                        \<lparr>SwipePoint.x = 150, y = 100, t = 2\<rparr>],
        isSwiping := True\<rparr>\<rparr>"

definition runningEngine :: GameEngine where
  "runningEngine = newGameEngine\<lparr>isRunning := True\<rparr>"

definition timedEngine :: GameEngine where
  "timedEngine = runningEngine\<lparr>lastFrameTime := Some 1000\<rparr>"

definition loadedEngine :: GameEngine where
  "loadedEngine = timedEngine\<lparr>accumulator := 1 / 15\<rparr>"

definition pausedEngine :: GameEngine where
  "pausedEngine = pauseGame timedEngine"

definition twoBombWorld :: World where
  "twoBombWorld =
     newWorld\<lparr>gameState := (gameState newWorld)
       \<lparr>fruits := [newFruit 100 100 0 0 ''bomb'' 30, newFruit 200 100 0 0 ''bomb'' 30],
        swipePoints := [\<lparr>SwipePoint.x = 50, y = 100, t = 0\<rparr>,
                        \<lparr>SwipePoint.x = 250, y = 100, t = 1\<rparr>],
        isSwiping := True\<rparr>\<rparr>"

section \<open>Session bookkeeping: reset and combo scoring\<close>

text \<open>
  C9. \<open>reset()\<close> empties every entity collection (fruits, slices, bomb explosions, juice
  particles, wall splashes, combo splashes), zeroes the score, the combo counter and the
  elapsed time, and leaves the best score and the high-score list as they were.
\<close>

theorem reset_clears_session:
  "fruits (reset now g) = [] \<and> slices (reset now g) = [] \<and>
   bombExplosions (reset now g) = [] \<and> juiceParticles (reset now g) = [] \<and>
   wallSplashes (reset now g) = [] \<and> comboSplashes (reset now g) = [] \<and>
   score (reset now g) = 0 \<and> comboCount (reset now g) = 0 \<and> elapsedTime (reset now g) = 0 \<and>
   bestScore (reset now g) = bestScore g \<and> highScores (reset now g) = highScores g"
  by (simp add: reset_def)

text \<open>
  C3. \<open>registerSlice()\<close>: when the time since the previous slice is below the combo
  window (800 ms) the combo counter goes up by one, otherwise it becomes 1; the new combo
  value is added to the score and the time of the slice is recorded. From a reset state,
  slices at 0, 200 and 500 ms give the combo counts 1, 2, 3 and the scores 1, 3, 6, and a
  fourth slice at 1500 ms gives the combo count 1.
\<close>

theorem registerSlice_combo:
  "COMBO_THRESHOLD = 800 \<and>
   registerSlice now g =
     g\<lparr>comboCount := (if now - lastSliceTime g < COMBO_THRESHOLD then comboCount g + 1 else 1),
       lastSliceTime := now,
       score := score g +
         (if now - lastSliceTime g < COMBO_THRESHOLD then comboCount g + 1 else 1)\<rparr> \<and>
   (let g1 = registerSlice 0 (reset t0 g);
        g2 = registerSlice 200 g1;
        g3 = registerSlice 500 g2;
        g4 = registerSlice 1500 g3
    in comboCount g1 = 1 \<and> score g1 = 1 \<and>
       comboCount g2 = 2 \<and> score g2 = 1 + 2 \<and>
       comboCount g3 = 3 \<and> score g3 = 1 + 2 + 3 \<and>
       comboCount g4 = 1)"
  by (simp add: registerSlice_def Let_def COMBO_THRESHOLD_def reset_def)

section \<open>Slicing a fruit\<close>

lemma Fruit_slice_sliced: "sliced f \<Longrightarrow> Fruit_slice now dateNow f w = (None, f, w)"
  by (simp add: Fruit_slice_def)

lemma Fruit_slice_marks: "sliced (fst (snd (Fruit_slice now dateNow f w)))"
  by (simp add: Fruit_slice_def Let_def)

lemma Fruit_slice_fruits:
  "fruits (gameState (snd (snd (Fruit_slice now dateNow f w)))) = fruits (gameState w)"
  by (simp add: Fruit_slice_def Let_def registerSlice_def triggerGameOver_def saveHighScore_def
      playSound_def)

lemma handleFruitCollision_sliced:
  assumes "i < length (fruits (gameState w))"
  shows "sliced (fruits (gameState (handleFruitCollision now dateNow i w)) ! i)"
  using assms
  by (simp add: handleFruitCollision_def Let_def Fruit_slice_fruits Fruit_slice_marks
      split: option.split)

lemma handleFruitCollision_length:
  "length (fruits (gameState (handleFruitCollision now dateNow i w))) =
   length (fruits (gameState w))"
  by (simp add: handleFruitCollision_def Let_def Fruit_slice_fruits split: option.split)

lemma handleFruitCollision_on_sliced:
  assumes "sliced (fruits (gameState w) ! i)"
  shows "gameState (handleFruitCollision now dateNow i w) = gameState w"
    and "localStorage (handleFruitCollision now dateNow i w) = localStorage w"
    and "audioCalls (handleFruitCollision now dateNow i w) = audioCalls w"
    and "effectCalls (handleFruitCollision now dateNow i w) = effectCalls w"
  using assms
  by (simp_all add: handleFruitCollision_def Let_def Fruit_slice_sliced)

text \<open>
  C10. The sliced flag is write-once. Slicing a fruit whose flag is set returns null and
  leaves the fruit and all global state as they are (score, combo, game-over flag, high
  scores, sounds). Any call of \<open>slice\<close> leaves the flag set, so a second call on the
  same fruit is such a call. Slicing an unsliced bomb sets game-over; and when collision
  resolution runs twice for the same fruit, the second run changes neither the game
  state, nor the storage, nor the sounds and effects asked for.
\<close>

theorem sliced_write_once:
  "(sliced f \<longrightarrow> Fruit_slice now dateNow f w = (None, f, w)) \<and>
   (let r1 = Fruit_slice now dateNow f w; f1 = fst (snd r1); w1 = snd (snd r1)
    in sliced f1 \<and> Fruit_slice now2 dateNow2 f1 w1 = (None, f1, w1)) \<and>
   (\<not> sliced f \<and> Fruit.type f = ''bomb'' \<longrightarrow>
      gameOver (gameState (snd (snd (Fruit_slice now dateNow f w))))) \<and>
   (i < length (fruits (gameState w)) \<longrightarrow>
      (let w1 = handleFruitCollision now dateNow i w;
           w2 = handleFruitCollision now2 dateNow2 i w1
       in gameState w2 = gameState w1 \<and> localStorage w2 = localStorage w1 \<and>
          audioCalls w2 = audioCalls w1 \<and> effectCalls w2 = effectCalls w1))"
proof -
  have a: "sliced f \<longrightarrow> Fruit_slice now dateNow f w = (None, f, w)"
    by (simp add: Fruit_slice_sliced)
  have b: "let r1 = Fruit_slice now dateNow f w; f1 = fst (snd r1); w1 = snd (snd r1)
    in sliced f1 \<and> Fruit_slice now2 dateNow2 f1 w1 = (None, f1, w1)"
    by (simp add: Let_def Fruit_slice_marks Fruit_slice_sliced)
  have c: "\<not> sliced f \<and> Fruit.type f = ''bomb'' \<longrightarrow>
      gameOver (gameState (snd (snd (Fruit_slice now dateNow f w))))"
    by (simp add: Fruit_slice_def Let_def triggerGameOver_def saveHighScore_def playSound_def)
  have d: "i < length (fruits (gameState w)) \<longrightarrow>
      (let w1 = handleFruitCollision now dateNow i w;
           w2 = handleFruitCollision now2 dateNow2 i w1
       in gameState w2 = gameState w1 \<and> localStorage w2 = localStorage w1 \<and>
          audioCalls w2 = audioCalls w1 \<and> effectCalls w2 = effectCalls w1)"
    by (simp add: Let_def handleFruitCollision_on_sliced handleFruitCollision_sliced)
  from a b c d show ?thesis by blast
qed

text \<open>
  A bomb at index 0, resolved twice: the game is over after the first resolution and the
  high-score list holds one entry after the second.
\<close>

theorem sliced_write_once_witness:
  "sliced (aBomb\<lparr>sliced := True\<rparr>) \<and>
   Fruit_slice 10 20 (aBomb\<lparr>sliced := True\<rparr>) bombWorld
     = (None, aBomb\<lparr>sliced := True\<rparr>, bombWorld) \<and>
   \<not> sliced aBomb \<and> Fruit.type aBomb = ''bomb'' \<and>
   (0::nat) < length (fruits (gameState bombWorld)) \<and>
   gameOver (gameState (handleFruitCollision 10 20 0 bombWorld)) \<and>
   highScores (gameState (handleFruitCollision 11 21 0 (handleFruitCollision 10 20 0 bombWorld)))
     = [\<lparr>HighScoreEntry.score = 1, date = 20\<rparr>]"
proof -
  have s: "sliced (aBomb\<lparr>sliced := True\<rparr>)" by simp
  have u: "\<not> sliced aBomb \<and> Fruit.type aBomb = ''bomb''"
    by (simp add: aBomb_def newFruit_def)
  have l: "(0::nat) < length (fruits (gameState bombWorld))"
    by (simp add: bombWorld_def)
  have g1: "gameState (handleFruitCollision 10 20 0 bombWorld) =
     (gameState bombWorld)\<lparr>fruits := [aBomb\<lparr>sliced := True\<rparr>], comboCount := 1,
        lastSliceTime := 10, score := 1, gameOver := True, bestScore := 1,
        highScores := [\<lparr>HighScoreEntry.score = 1, date = 20\<rparr>]\<rparr>"
    by (simp add: handleFruitCollision_def Let_def Fruit_slice_def bombWorld_def aBomb_def
        newFruit_def newWorld_def newGameState_def registerSlice_def triggerGameOver_def
        saveHighScore_def playSound_def COMBO_THRESHOLD_def)
  from sliced_write_once [of "aBomb\<lparr>sliced := True\<rparr>" 10 20 bombWorld 11 21 0] s u l g1
  show ?thesis by (simp add: Let_def bombWorld_def)
qed

section \<open>Spawning\<close>

lemma spawnItem_fruits:
  "fruits (gameState (spawnItem nf w)) =
     (if length (fruits (gameState w)) < fruitCap then fruits (gameState w) @ [nf]
      else fruits (gameState w))"
  by (simp add: spawnItem_def Let_def playSound_def)

lemma spawnItem_spawnManager: "spawnManager (spawnItem nf w) = spawnManager w"
  by (simp add: spawnItem_def Let_def playSound_def)

lemma SpawnManager_update_running:
  assumes "\<not> gameOver (gameState w)"
  shows "(let w' = SpawnManager_update deltaTime now nf w;
        timer = spawnTimer (spawnManager w) + deltaTime * 1000 * (1 / pressureFactor (gameState w));
        interval = max MIN_SPAWN_INTERVAL
                     (baseSpawnRate (spawnManager w)
                        - elapsedTime (gameState w) * DIFFICULTY_INCREASE_RATE)
    in currentSpawnRate (spawnManager w') = interval \<and>
       spawnTimer (spawnManager w') = (if timer \<ge> interval then 0 else timer) \<and>
       fruits (gameState w') =
         (if timer \<ge> interval \<and> length (fruits (gameState w)) < fruitCap
          then fruits (gameState w) @ [nf] else fruits (gameState w)))"
proof -
  have pos: "0 < max MIN_SPAWN_INTERVAL r" for r
    by (simp add: MIN_SPAWN_INTERVAL_def max_def)
  show ?thesis
    using assms pos
    by (simp add: SpawnManager_update_def SpawnManager_updateDifficulty_def Let_def
        spawnItem_fruits spawnItem_spawnManager)
qed

text \<open>
  C7. While the game is not over, \<open>SpawnManager.update\<close> advances the spawn timer
  (slowed by the pressure factor) and sets the interval from the elapsed time. When the
  timer has reached the interval, one fruit is appended to the fruit collection unless the
  collection already holds 18 fruits, in which case it is left as it is; either way the
  timer is set to zero. When the timer has not reached the interval nothing is spawned
  and the timer keeps its advanced value. Once the game is over \<open>update\<close> returns at
  once, so the timer does not advance and cannot reach the interval. \<open>forceSpawn\<close>
  does not look at the timer: it appends one fruit under the same cap and sets the timer
  to zero.
\<close>

theorem spawn_respects_cap:
  "fruitCap = 18 \<and>
   (gameOver (gameState w) \<longrightarrow> SpawnManager_update deltaTime now nf w = w) \<and>
   (\<not> gameOver (gameState w) \<longrightarrow>
     (let w' = SpawnManager_update deltaTime now nf w;
          timer = spawnTimer (spawnManager w)
                    + deltaTime * 1000 * (1 / pressureFactor (gameState w));
          interval = max MIN_SPAWN_INTERVAL
                       (baseSpawnRate (spawnManager w)
                          - elapsedTime (gameState w) * DIFFICULTY_INCREASE_RATE)
      in currentSpawnRate (spawnManager w') = interval \<and>
         spawnTimer (spawnManager w') = (if timer \<ge> interval then 0 else timer) \<and>
         fruits (gameState w') =
           (if timer \<ge> interval \<and> length (fruits (gameState w)) < fruitCap
            then fruits (gameState w) @ [nf] else fruits (gameState w)))) \<and>
   spawnTimer (spawnManager (forceSpawn nf w)) = 0 \<and>
   fruits (gameState (forceSpawn nf w)) =
     (if length (fruits (gameState w)) < fruitCap then fruits (gameState w) @ [nf]
      else fruits (gameState w))"
proof -
  have over: "gameOver (gameState w) \<longrightarrow> SpawnManager_update deltaTime now nf w = w"
    by (simp add: SpawnManager_update_def)
  have force: "spawnTimer (spawnManager (forceSpawn nf w)) = 0 \<and>
   fruits (gameState (forceSpawn nf w)) =
     (if length (fruits (gameState w)) < fruitCap then fruits (gameState w) @ [nf]
      else fruits (gameState w))"
    by (simp add: forceSpawn_def Let_def spawnItem_fruits)
  from over force SpawnManager_update_running [of w deltaTime now nf] show ?thesis
    by (simp add: fruitCap_def)
qed

text \<open>
  A due timer with an empty collection spawns one fruit; with 18 fruits it spawns none
  and still resets; a forced spawn at the cap spawns none; after game over the due timer
  stays as it is.
\<close>

theorem spawn_respects_cap_witness:
  "\<not> gameOver (gameState dueWorld) \<and> \<not> gameOver (gameState fullWorld) \<and>
   gameOver (gameState overWorld) \<and>
   fruits (gameState (SpawnManager_update (1 / 120) 5000 aFruit dueWorld)) = [aFruit] \<and>
   spawnTimer (spawnManager (SpawnManager_update (1 / 120) 5000 aFruit dueWorld)) = 0 \<and>
   fruits (gameState (SpawnManager_update (1 / 120) 5000 aFruit fullWorld)) = replicate 18 aFruit \<and>
   spawnTimer (spawnManager (SpawnManager_update (1 / 120) 5000 aFruit fullWorld)) = 0 \<and>
   SpawnManager_update (1 / 120) 5000 aFruit overWorld = overWorld \<and>
   fruits (gameState (forceSpawn aFruit fullWorld)) = replicate 18 aFruit \<and>
   fruits (gameState (forceSpawn aFruit newWorld)) = [aFruit]"
proof -
  have a: "\<not> gameOver (gameState dueWorld)" "\<not> gameOver (gameState fullWorld)"
    "gameOver (gameState overWorld)"
    by (simp_all add: dueWorld_def fullWorld_def overWorld_def newWorld_def newGameState_def)
  have p1: "pressureFactor (gameState dueWorld) = 1"
    by (simp add: pressureFactor_def getActiveEffectCount_def dueWorld_def newWorld_def
        newGameState_def Let_def)
  have p2: "pressureFactor (gameState fullWorld) = 1"
    by (simp add: pressureFactor_def getActiveEffectCount_def fullWorld_def dueWorld_def
        newWorld_def newGameState_def Let_def)
  have f: "fruits (gameState dueWorld) = []" "fruits (gameState fullWorld) = replicate 18 aFruit"
    "fruits (gameState newWorld) = []"
    "spawnTimer (spawnManager dueWorld) = 995" "spawnTimer (spawnManager fullWorld) = 995"
    "baseSpawnRate (spawnManager dueWorld) = 1000" "baseSpawnRate (spawnManager fullWorld) = 1000"
    "elapsedTime (gameState dueWorld) = 0" "elapsedTime (gameState fullWorld) = 0"
    by (simp_all add: dueWorld_def fullWorld_def newWorld_def newGameState_def newSpawnManager_def
        INITIAL_SPAWN_INTERVAL_def)
  from spawn_respects_cap [of dueWorld "1 / 120" 5000 aFruit]
    spawn_respects_cap [of fullWorld "1 / 120" 5000 aFruit]
    spawn_respects_cap [of overWorld "1 / 120" 5000 aFruit]
    spawn_respects_cap [of newWorld 0 0 aFruit]
    a p1 p2 f
  show ?thesis
    by (simp add: Let_def MIN_SPAWN_INTERVAL_def DIFFICULTY_INCREASE_RATE_def)
qed

section \<open>Removal policy\<close>

text \<open>
  C8. The removal policy is per variant. A fruit or bomb is removed exactly when its full
  circle (centre and radius) lies completely outside the visible area widened by the
  overflow threshold (100); the test is made against all four sides (left, right, top and
  bottom), not against the bottom side only as in the base rule, and the life and the
  alive flag play no part in it. A slice half or a particle other than a wall splash is
  removed when the base rule holds (not alive, or below the bottom edge by more than the
  threshold) or when its centre lies beyond the left or right edge by more than the
  threshold. A wall splash is removed exactly when it is not alive, and so is a combo
  text: neither is removed by position.
\<close>

theorem removal_policy_per_variant:
  "CANVAS_OVERFLOW_THRESHOLD = 100 \<and>
   Fruit_shouldRemove canvasWidth canvasHeight f =
     (x f + radius f < - CANVAS_OVERFLOW_THRESHOLD \<or>
      x f - radius f > canvasWidth + CANVAS_OVERFLOW_THRESHOLD \<or>
      y f + radius f < - CANVAS_OVERFLOW_THRESHOLD \<or>
      y f - radius f > canvasHeight + CANVAS_OVERFLOW_THRESHOLD) \<and>
   Fruit_shouldRemove canvasWidth canvasHeight (f\<lparr>life := l, isAlive := a\<rparr>) =
     Fruit_shouldRemove canvasWidth canvasHeight f \<and>
   FruitSlice_shouldRemove canvasWidth canvasHeight s =
     (GameObject_shouldRemove canvasWidth canvasHeight s \<or>
      x s < - CANVAS_OVERFLOW_THRESHOLD \<or> x s > canvasWidth + CANVAS_OVERFLOW_THRESHOLD) \<and>
   Particle_shouldRemove canvasWidth canvasHeight p =
     (if Particle.type p = ''wallSplash'' then \<not> isAlive p
      else (GameObject_shouldRemove canvasWidth canvasHeight p \<or>
            x p < - CANVAS_OVERFLOW_THRESHOLD \<or> x p > canvasWidth + CANVAS_OVERFLOW_THRESHOLD)) \<and>
   ComboSplash_shouldRemove canvasWidth canvasHeight c = (\<not> isAlive c)"
  by (auto simp add: Fruit_shouldRemove_def isCircleOutsideCanvas_def FruitSlice_shouldRemove_def
      Particle_shouldRemove_def ComboSplash_shouldRemove_def GameObject_shouldRemove_def
      CANVAS_OVERFLOW_THRESHOLD_def)

text \<open>
  A fruit beyond the left side is removed; a fruit on screen with no life left and the
  alive flag cleared is not; a wall splash far off screen is removed only once it is not
  alive.
\<close>

theorem removal_policy_per_variant_witness:
  "Fruit_shouldRemove 800 600 farLeftFruit \<and>
   \<not> Fruit_shouldRemove 800 600 (aFruit\<lparr>life := 0, isAlive := False\<rparr>) \<and>
   Particle_shouldRemove 800 600 deadSplash \<and>
   \<not> Particle_shouldRemove 800 600 (deadSplash\<lparr>isAlive := True\<rparr>)"
proof -
  have thr: "CANVAS_OVERFLOW_THRESHOLD = 100"
    by (simp add: CANVAS_OVERFLOW_THRESHOLD_def)
  have a: "Fruit_shouldRemove 800 600 farLeftFruit"
    using removal_policy_per_variant [where canvasWidth = 800 and canvasHeight = 600
        and f = farLeftFruit]
    by (simp add: thr farLeftFruit_def newFruit_def)
  have b0: "\<not> Fruit_shouldRemove 800 600 aFruit"
    using removal_policy_per_variant [where canvasWidth = 800 and canvasHeight = 600
        and f = aFruit]
    by (simp add: thr aFruit_def newFruit_def)
  have b: "\<not> Fruit_shouldRemove 800 600 (aFruit\<lparr>life := 0, isAlive := False\<rparr>)"
    using removal_policy_per_variant [where canvasWidth = 800 and canvasHeight = 600
        and f = aFruit and l = 0 and a = False] b0
    by simp
  have c: "Particle_shouldRemove 800 600 deadSplash"
    using removal_policy_per_variant [where canvasWidth = 800 and canvasHeight = 600
        and p = deadSplash]
    by (simp add: deadSplash_def newParticle_def)
  have d: "\<not> Particle_shouldRemove 800 600 (deadSplash\<lparr>isAlive := True\<rparr>)"
    using removal_policy_per_variant [where canvasWidth = 800 and canvasHeight = 600
        and p = "deadSplash\<lparr>isAlive := True\<rparr>"]
    by (simp add: deadSplash_def newParticle_def)
  from a b c d show ?thesis by simp
qed

section \<open>The alive flag\<close>

lemma GameObject_update_isAlive:
  "isAlive (GameObject_update dt obj) = (isAlive obj \<and> \<not> (maxLife obj > 0 \<and> life obj - dt \<le> 0))"
  by (simp add: GameObject_update_def Let_def)

lemma cullLoop_kept: "q \<in> set (cullLoop upd shouldGo objs) \<Longrightarrow> \<not> shouldGo q"
  by (induction objs) (auto simp add: cullLoop_def Let_def split: if_splits)

lemma cullLoop_filter: "cullLoop upd shouldGo objs = filter (\<lambda>q. \<not> shouldGo q) (map upd objs)"
  by (induction objs) (simp_all add: cullLoop_def Let_def)

text \<open>
  C1, as the claim states it, does not hold. For fruit: a fruit on which \<open>destroy()\<close>
  was called is not alive, is not eligible for removal, and is alive again after its next
  update. For the other variants: \<open>update\<close> has no guard on the alive flag and the cull
  loops call it before they ask \<open>shouldRemove\<close>, so a particle on which \<open>destroy()\<close>
  was called is updated once more (it moves from 10 to 12) before the pass removes it.
\<close>

theorem not_alive_is_updated_again:
  "\<not> isAlive (GameObject_destroy aFruit) \<and>
   isAlive (Fruit_update (1 / 120) (GameObject_destroy aFruit)) \<and>
   \<not> Fruit_shouldRemove 800 600 (GameObject_destroy aFruit) \<and>
   \<not> isAlive destroyedJuice \<and> x destroyedJuice = 10 \<and>
   x (Particle_update (1 / 120) destroyedJuice) = 12 \<and>
   updateParticleArray (1 / 120) 800 600 [destroyedJuice] =
     filter (\<lambda>q. \<not> Particle_shouldRemove 800 600 q) [Particle_update (1 / 120) destroyedJuice] \<and>
   updateParticleArray (1 / 120) 800 600 [destroyedJuice] = []"
proof -
  have fruit: "\<not> isAlive (GameObject_destroy aFruit)"
    "isAlive (Fruit_update (1 / 120) (GameObject_destroy aFruit))"
    "\<not> Fruit_shouldRemove 800 600 (GameObject_destroy aFruit)"
    by (simp_all add: GameObject_destroy_def Fruit_update_def Let_def Fruit_shouldRemove_def
        isCircleOutsideCanvas_def aFruit_def newFruit_def CANVAS_OVERFLOW_THRESHOLD_def)
  have juice: "\<not> isAlive destroyedJuice" "x destroyedJuice = 10"
    "x (Particle_update (1 / 120) destroyedJuice) = 12"
    "\<not> isAlive (Particle_update (1 / 120) destroyedJuice)"
    by (simp_all add: destroyedJuice_def GameObject_destroy_def newParticle_def
        Particle_update_def GameObject_update_def Let_def)
  have pass: "updateParticleArray (1 / 120) 800 600 [destroyedJuice] =
     filter (\<lambda>q. \<not> Particle_shouldRemove 800 600 q) [Particle_update (1 / 120) destroyedJuice]"
    by (simp add: updateParticleArray_def cullLoop_filter)
  have gone: "Particle_shouldRemove 800 600 (Particle_update (1 / 120) destroyedJuice)"
    using juice(4) by (simp add: Particle_shouldRemove_def)
  from fruit juice(1-3) pass gone show ?thesis by simp
qed

text \<open>
  C1, amended. For every entity variant other than fruit and bombs (the base object, slice
  halves, particles, combo text), once the alive flag is false it never becomes true
  again: after an update the entity is alive exactly when it was alive before and it is
  not the case that a positive cap is set and life minus the step is at most zero, and an
  explicit kill (\<open>destroy\<close>) leaves the entity not alive. A not-alive entity of these
  variants is eligible for removal. \<open>update\<close> itself does not look at the alive flag (it
  moves the entity whatever the flag is), and each cull pass updates every entity of its
  collection and then drops those that \<open>shouldRemove\<close> names: so an entity whose life
  runs out in an update is dropped in that same pass and never updated again, an entity
  killed by \<open>destroy\<close> is updated once more by the next pass, which drops it, and every
  entity a pass leaves in an effect collection is alive. For fruit and bombs \<open>update\<close>
  sets life back to the cap and alive to true, and their removal depends neither on the
  alive flag nor on life.
\<close>

theorem alive_monotonic_except_fruit:
  "isAlive (GameObject_update dt obj) = (isAlive obj \<and> \<not> (maxLife obj > 0 \<and> life obj - dt \<le> 0)) \<and>
   isAlive (FruitSlice_update dt s) = (isAlive s \<and> \<not> (maxLife s > 0 \<and> life s - dt \<le> 0)) \<and>
   isAlive (Particle_update dt p) = (isAlive p \<and> \<not> (maxLife p > 0 \<and> life p - dt \<le> 0)) \<and>
   isAlive (ComboSplash_update dt c) = (isAlive c \<and> \<not> (maxLife c > 0 \<and> life c - dt \<le> 0)) \<and>
   \<not> isAlive (GameObject_destroy obj) \<and>
   (\<not> isAlive obj \<longrightarrow> GameObject_shouldRemove cw ch obj) \<and>
   (\<not> isAlive s \<longrightarrow> FruitSlice_shouldRemove cw ch s) \<and>
   (\<not> isAlive p \<longrightarrow> Particle_shouldRemove cw ch p) \<and>
   (\<not> isAlive c \<longrightarrow> ComboSplash_shouldRemove cw ch c) \<and>
   (\<forall>q \<in> set (juiceParticles (updateEffects dt cw ch g)). isAlive q) \<and>
   (\<forall>q \<in> set (bombExplosions (updateEffects dt cw ch g)). isAlive q) \<and>
   (\<forall>q \<in> set (wallSplashes (updateEffects dt cw ch g)). isAlive q) \<and>
   (\<forall>q \<in> set (slices (updateEffects dt cw ch g)). isAlive q) \<and>
   (\<forall>q \<in> set (comboSplashes (updateEffects dt cw ch g)). isAlive q) \<and>
   isAlive (Fruit_update dt f) \<and> life (Fruit_update dt f) = maxLife f \<and>
   x (GameObject_update dt obj) = x obj + vx obj * dt \<and>
   x (FruitSlice_update dt s) = x s + vx s * dt \<and>
   x (Particle_update dt p) = x p + vx p * dt \<and>
   x (ComboSplash_update dt c) = x c + vx c * dt \<and>
   updateParticleArray dt cw ch ps =
     filter (\<lambda>q. \<not> Particle_shouldRemove cw ch q) (map (Particle_update dt) ps) \<and>
   juiceParticles (updateEffects dt cw ch g) = updateParticleArray dt cw ch (juiceParticles g) \<and>
   bombExplosions (updateEffects dt cw ch g) = updateParticleArray dt cw ch (bombExplosions g) \<and>
   wallSplashes (updateEffects dt cw ch g) = updateParticleArray dt cw ch (wallSplashes g) \<and>
   slices (updateEffects dt cw ch g) =
     filter (\<lambda>q. \<not> FruitSlice_shouldRemove cw ch q) (map (FruitSlice_update dt) (slices g)) \<and>
   comboSplashes (updateEffects dt cw ch g) =
     filter (\<lambda>q. \<not> ComboSplash_shouldRemove cw ch q)
       (map (ComboSplash_update dt) (comboSplashes g)) \<and>
   (\<not> isAlive p \<longrightarrow> updateParticleArray dt cw ch [p] = []) \<and>
   (isAlive p \<and> \<not> isAlive (Particle_update dt p) \<longrightarrow> updateParticleArray dt cw ch [p] = []) \<and>
   fruits (updateFruits dt cw ch g) =
     filter (\<lambda>q. \<not> Fruit_shouldRemove cw ch q) (map (Fruit_update dt) (fruits g)) \<and>
   Fruit_shouldRemove cw ch (f\<lparr>life := l, isAlive := a\<rparr>) = Fruit_shouldRemove cw ch f"
proof -
  have upd: "isAlive (FruitSlice_update dt s) = (isAlive s \<and> \<not> (maxLife s > 0 \<and> life s - dt \<le> 0))"
    "isAlive (Particle_update dt p) = (isAlive p \<and> \<not> (maxLife p > 0 \<and> life p - dt \<le> 0))"
    "isAlive (ComboSplash_update dt c) = (isAlive c \<and> \<not> (maxLife c > 0 \<and> life c - dt \<le> 0))"
    by (simp_all add: FruitSlice_update_def Particle_update_def ComboSplash_update_def Let_def
        GameObject_update_isAlive)
  have kill: "\<not> isAlive (GameObject_destroy obj)"
    by (simp add: GameObject_destroy_def)
  have rem: "\<not> isAlive obj \<longrightarrow> GameObject_shouldRemove cw ch obj"
    "\<not> isAlive s \<longrightarrow> FruitSlice_shouldRemove cw ch s"
    "\<not> isAlive p \<longrightarrow> Particle_shouldRemove cw ch p"
    "\<not> isAlive c \<longrightarrow> ComboSplash_shouldRemove cw ch c"
    by (simp_all add: GameObject_shouldRemove_def FruitSlice_shouldRemove_def
        Particle_shouldRemove_def ComboSplash_shouldRemove_def)
  have parts: "q \<in> set (updateParticleArray dt cw ch qs) \<Longrightarrow> isAlive q" for q qs
    using cullLoop_kept [of q "Particle_update dt" "Particle_shouldRemove cw ch" qs]
    by (auto simp add: updateParticleArray_def Particle_shouldRemove_def split: if_splits)
  have sl: "q \<in> set (cullLoop (FruitSlice_update dt) (FruitSlice_shouldRemove cw ch) ss)
      \<Longrightarrow> isAlive q" for q ss
    using cullLoop_kept [of q "FruitSlice_update dt" "FruitSlice_shouldRemove cw ch" ss]
    by (auto simp add: FruitSlice_shouldRemove_def)
  have cs: "q \<in> set (cullLoop (ComboSplash_update dt) (ComboSplash_shouldRemove cw ch) ss)
      \<Longrightarrow> isAlive q" for q ss
    using cullLoop_kept [of q "ComboSplash_update dt" "ComboSplash_shouldRemove cw ch" ss]
    by (auto simp add: ComboSplash_shouldRemove_def)
  have cull: "\<forall>q \<in> set (juiceParticles (updateEffects dt cw ch g)). isAlive q"
    "\<forall>q \<in> set (bombExplosions (updateEffects dt cw ch g)). isAlive q"
    "\<forall>q \<in> set (wallSplashes (updateEffects dt cw ch g)). isAlive q"
    "\<forall>q \<in> set (slices (updateEffects dt cw ch g)). isAlive q"
    "\<forall>q \<in> set (comboSplashes (updateEffects dt cw ch g)). isAlive q"
    by (simp_all add: updateEffects_def parts sl cs)
  have fr: "isAlive (Fruit_update dt f)" "life (Fruit_update dt f) = maxLife f"
    by (simp_all add: Fruit_update_def Let_def GameObject_update_def)
  have move: "x (GameObject_update dt obj) = x obj + vx obj * dt"
    "x (FruitSlice_update dt s) = x s + vx s * dt"
    "x (Particle_update dt p) = x p + vx p * dt"
    "x (ComboSplash_update dt c) = x c + vx c * dt"
    by (simp_all add: FruitSlice_update_def Particle_update_def ComboSplash_update_def
        GameObject_update_def Let_def)
  have pass: "updateParticleArray dt cw ch qs =
     filter (\<lambda>q. \<not> Particle_shouldRemove cw ch q) (map (Particle_update dt) qs)" for qs
    by (simp add: updateParticleArray_def cullLoop_filter)
  have eff: "juiceParticles (updateEffects dt cw ch g) = updateParticleArray dt cw ch (juiceParticles g)"
    "bombExplosions (updateEffects dt cw ch g) = updateParticleArray dt cw ch (bombExplosions g)"
    "wallSplashes (updateEffects dt cw ch g) = updateParticleArray dt cw ch (wallSplashes g)"
    "slices (updateEffects dt cw ch g) =
     filter (\<lambda>q. \<not> FruitSlice_shouldRemove cw ch q) (map (FruitSlice_update dt) (slices g))"
    "comboSplashes (updateEffects dt cw ch g) =
     filter (\<lambda>q. \<not> ComboSplash_shouldRemove cw ch q)
       (map (ComboSplash_update dt) (comboSplashes g))"
    by (simp_all add: updateEffects_def cullLoop_filter)
  have late: "\<not> isAlive p \<longrightarrow> updateParticleArray dt cw ch [p] = []"
    "isAlive p \<and> \<not> isAlive (Particle_update dt p) \<longrightarrow> updateParticleArray dt cw ch [p] = []"
    using upd(2) by (auto simp add: pass Particle_shouldRemove_def)
  have fruit: "fruits (updateFruits dt cw ch g) =
     filter (\<lambda>q. \<not> Fruit_shouldRemove cw ch q) (map (Fruit_update dt) (fruits g))"
    "Fruit_shouldRemove cw ch (f\<lparr>life := l, isAlive := a\<rparr>) = Fruit_shouldRemove cw ch f"
    by (simp_all add: updateFruits_def cullLoop_filter Fruit_shouldRemove_def)
  from GameObject_update_isAlive [of dt obj] upd kill rem cull fr move pass [of ps] eff late fruit
  show ?thesis
    by blast
qed

text \<open>
  Not-alive particles, slices and combo texts stay not alive and are eligible for
  removal; a juice particle whose life runs out in this step is dropped by the cull pass,
  one with life left is kept, and a destroyed one is dropped by the next pass.
\<close>

theorem alive_monotonic_except_fruit_witness:
  "\<not> isAlive deadSplash \<and> \<not> isAlive (Particle_update (1 / 120) deadSplash) \<and>
   Particle_shouldRemove 800 600 deadSplash \<and>
   \<not> isAlive deadSlice \<and> FruitSlice_shouldRemove 800 600 deadSlice \<and>
   \<not> isAlive deadCombo \<and> ComboSplash_shouldRemove 800 600 deadCombo \<and>
   GameObject_shouldRemove 800 600 deadCombo \<and>
   isAlive expiringJuice \<and> \<not> isAlive (Particle_update (1 / 120) expiringJuice) \<and>
   juiceParticles (updateEffects (1 / 120) 800 600 juiceState) = [Particle_update (1 / 120) freshJuice] \<and>
   isAlive (Particle_update (1 / 120) freshJuice) \<and>
   \<not> isAlive destroyedJuice \<and> updateParticleArray (1 / 120) 800 600 [destroyedJuice] = [] \<and>
   updateParticleArray (1 / 120) 800 600 [expiringJuice] = []"
proof -
  note inst = alive_monotonic_except_fruit [where dt = "1 / 120" and cw = 800 and ch = 600
      and g = juiceState and s = deadSlice and c = deadCombo and obj = deadCombo]
  have dead: "\<not> isAlive deadSplash" "\<not> isAlive deadSlice" "\<not> isAlive deadCombo"
    by (simp_all add: deadSplash_def deadSlice_def deadCombo_def)
  have a: "\<not> isAlive (Particle_update (1 / 120) deadSplash)"
    "Particle_shouldRemove 800 600 deadSplash"
    using inst [where p = deadSplash] dead by simp_all
  have b: "FruitSlice_shouldRemove 800 600 deadSlice" "ComboSplash_shouldRemove 800 600 deadCombo"
    "GameObject_shouldRemove 800 600 deadCombo"
    using inst [where p = deadSplash] dead by simp_all
  have e: "isAlive expiringJuice" "maxLife expiringJuice = 1 / 240" "life expiringJuice = 1 / 240"
    "isAlive freshJuice" "maxLife freshJuice = 1" "life freshJuice = 1"
    by (simp_all add: expiringJuice_def freshJuice_def newParticle_def)
  have c: "\<not> isAlive (Particle_update (1 / 120) expiringJuice)"
    using inst [where p = expiringJuice] e by simp
  have d: "isAlive (Particle_update (1 / 120) freshJuice)"
    using inst [where p = freshJuice] e by simp
  have pos: "\<not> Particle_shouldRemove 800 600 (Particle_update (1 / 120) freshJuice)"
    using d
    by (simp add: Particle_shouldRemove_def Particle_update_def GameObject_update_def Let_def
        freshJuice_def newParticle_def CANVAS_OVERFLOW_THRESHOLD_def)
  have gone: "Particle_shouldRemove 800 600 (Particle_update (1 / 120) expiringJuice)"
    using c by (simp add: Particle_shouldRemove_def)
  have f: "juiceParticles (updateEffects (1 / 120) 800 600 juiceState)
      = [Particle_update (1 / 120) freshJuice]"
    using pos gone
    by (simp add: updateEffects_def updateParticleArray_def cullLoop_filter juiceState_def)
  have dj: "\<not> isAlive destroyedJuice"
    by (simp add: destroyedJuice_def GameObject_destroy_def)
  have k: "updateParticleArray (1 / 120) 800 600 [destroyedJuice] = []"
    using inst [where p = destroyedJuice] dj by blast
  have x: "updateParticleArray (1 / 120) 800 600 [expiringJuice] = []"
    using inst [where p = expiringJuice] e(1) c by blast
  from dead a b e(1) c d f dj k x show ?thesis by simp
qed

section \<open>Game over and high scores\<close>





section \<open>Segment against circle\<close>

lemma projection_degenerate: "projection a b a b cx cy = None"
  by (simp add: projection_def)

lemma projection_proper:
  assumes "x1 \<noteq> x2 \<or> y1 \<noteq> y2"
  shows "projection x1 y1 x2 y2 cx cy =
    Some (((cx - x1) * (x2 - x1) + (cy - y1) * (y2 - y1)) /
          ((x2 - x1) * (x2 - x1) + (y2 - y1) * (y2 - y1)))"
proof -
  have "(x2 - x1) * (x2 - x1) + (y2 - y1) * (y2 - y1) \<noteq> 0"
    using assms by (auto simp add: sum_squares_eq_zero_iff)
  then show ?thesis by (simp add: projection_def Let_def)
qed

lemma lineIntersectsCircle_through_centre:
  assumes nd: "x1 \<noteq> x2 \<or> y1 \<noteq> y2"
    and s: "0 \<le> s" "s \<le> 1"
    and c: "cx = x1 + s * (x2 - x1)" "cy = y1 + s * (y2 - y1)"
    and r: "0 \<le> rad"
  shows "lineIntersectsCircle x1 y1 x2 y2 cx cy rad"
proof -
  let ?dx = "x2 - x1" and ?dy = "y2 - y1"
  have den: "?dx * ?dx + ?dy * ?dy \<noteq> 0"
    using nd by (auto simp add: sum_squares_eq_zero_iff)
  have "((cx - x1) * ?dx + (cy - y1) * ?dy) = s * (?dx * ?dx + ?dy * ?dy)"
    unfolding c by (simp add: algebra_simps)
  then have t0: "((cx - x1) * ?dx + (cy - y1) * ?dy) / (?dx * ?dx + ?dy * ?dy) = s"
    using den by simp
  have pr: "projection x1 y1 x2 y2 cx cy = Some s"
    using t0 by (simp only: projection_proper [OF nd])
  have cl: "max 0 (min 1 s) = s" using s by simp
  have "hypot (x1 + s * ?dx - cx) (y1 + s * ?dy - cy) = 0"
    unfolding c by (simp add: hypot_def)
  then show ?thesis
    using r by (simp add: lineIntersectsCircle_def Let_def pr cl)
qed

lemma lineIntersectsCircle_proper:
  assumes nd: "x1 \<noteq> x2 \<or> y1 \<noteq> y2"
  shows "lineIntersectsCircle x1 y1 x2 y2 cx cy rad =
    (let dx = x2 - x1; dy = y2 - y1;
         t = max 0 (min 1 (((cx - x1) * dx + (cy - y1) * dy) / (dx * dx + dy * dy)))
     in hypot (x1 + t * dx - cx) (y1 + t * dy - cy) \<le> rad)"
  by (simp add: lineIntersectsCircle_def Let_def projection_proper [OF nd])


lemma clamped_projection_is_closest:
  fixes x1 y1 x2 y2 cx cy u :: real
  assumes nd: "x1 \<noteq> x2 \<or> y1 \<noteq> y2" and u: "0 \<le> u" "u \<le> 1"
  shows "(let dx = x2 - x1; dy = y2 - y1;
              t = max 0 (min 1 (((cx - x1) * dx + (cy - y1) * dy) / (dx * dx + dy * dy)))
          in hypot (x1 + t * dx - cx) (y1 + t * dy - cy)
               \<le> hypot (x1 + u * dx - cx) (y1 + u * dy - cy))"
proof -
  define dx dy where "dx = x2 - x1" and "dy = y2 - y1"
  define d2 where "d2 = dx * dx + dy * dy"
  define n where "n = (cx - x1) * dx + (cy - y1) * dy"
  define t0 where "t0 = n / d2"
  define t where "t = max 0 (min 1 t0)"
  define q where "q = (\<lambda>v. (x1 + v * dx - cx) * (x1 + v * dx - cx)
                       + (y1 + v * dy - cy) * (y1 + v * dy - cy))"
  have d2pos: "0 < d2"
    using nd unfolding d2_def dx_def dy_def
    by (auto simp add: sum_squares_gt_zero_iff)
  have n: "n = t0 * d2"
    using d2pos by (simp add: t0_def)
  have diff: "q u - q t = d2 * ((u - t) * (u + t - 2 * t0))"
  proof -
    have "q u - q t = d2 * (u * u - t * t) - 2 * n * (u - t)"
      by (simp add: q_def d2_def n_def algebra_simps)
    also have "\<dots> = d2 * ((u - t) * (u + t - 2 * t0))"
      by (simp add: n algebra_simps)
    finally show ?thesis .
  qed
  have "0 \<le> (u - t) * (u + t - 2 * t0)"
  proof -
    consider "t0 < 0" | "0 \<le> t0 \<and> t0 \<le> 1" | "1 < t0" by linarith
    then show ?thesis
    proof cases
      case 1
      then have "t = 0" by (simp add: t_def)
      with 1 u show ?thesis by (simp add: mult_nonneg_nonneg)
    next
      case 2
      then have "t = t0" by (simp add: t_def)
      then show ?thesis by simp
    next
      case 3
      then have "t = 1" by (simp add: t_def)
      with 3 u show ?thesis by (simp add: mult_nonpos_nonpos)
    qed
  qed
  with d2pos have "0 \<le> q u - q t"
    unfolding diff by (simp add: mult_nonneg_nonneg)
  then have "sqrt (q t) \<le> sqrt (q u)" by simp
  then show ?thesis
    by (simp add: Let_def hypot_def q_def t_def t0_def n_def d2_def dx_def dy_def)
qed

lemma lineIntersectsCircle_iff_segment_meets_disc:
  fixes x1 y1 x2 y2 cx cy rad :: real
  assumes nd: "x1 \<noteq> x2 \<or> y1 \<noteq> y2"
  shows "lineIntersectsCircle x1 y1 x2 y2 cx cy rad =
    (\<exists>u. 0 \<le> u \<and> u \<le> 1 \<and>
         hypot (x1 + u * (x2 - x1) - cx) (y1 + u * (y2 - y1) - cy) \<le> rad)"
proof
  assume "lineIntersectsCircle x1 y1 x2 y2 cx cy rad"
  then have "hypot (x1 + max 0 (min 1 (((cx - x1) * (x2 - x1) + (cy - y1) * (y2 - y1)) /
        ((x2 - x1) * (x2 - x1) + (y2 - y1) * (y2 - y1)))) * (x2 - x1) - cx)
      (y1 + max 0 (min 1 (((cx - x1) * (x2 - x1) + (cy - y1) * (y2 - y1)) /
        ((x2 - x1) * (x2 - x1) + (y2 - y1) * (y2 - y1)))) * (y2 - y1) - cy) \<le> rad"
    by (simp add: lineIntersectsCircle_proper [OF nd] Let_def)
  moreover have "0 \<le> max 0 (min 1 (((cx - x1) * (x2 - x1) + (cy - y1) * (y2 - y1)) /
        ((x2 - x1) * (x2 - x1) + (y2 - y1) * (y2 - y1))))"
    "max 0 (min 1 (((cx - x1) * (x2 - x1) + (cy - y1) * (y2 - y1)) /
        ((x2 - x1) * (x2 - x1) + (y2 - y1) * (y2 - y1)))) \<le> 1"
    by simp_all
  ultimately show "\<exists>u. 0 \<le> u \<and> u \<le> 1 \<and>
         hypot (x1 + u * (x2 - x1) - cx) (y1 + u * (y2 - y1) - cy) \<le> rad"
    by blast
next
  assume "\<exists>u. 0 \<le> u \<and> u \<le> 1 \<and>
         hypot (x1 + u * (x2 - x1) - cx) (y1 + u * (y2 - y1) - cy) \<le> rad"
  then obtain u where u: "0 \<le> u" "u \<le> 1"
    and h: "hypot (x1 + u * (x2 - x1) - cx) (y1 + u * (y2 - y1) - cy) \<le> rad"
    by blast
  from clamped_projection_is_closest [OF nd u, of cx cy] h
  show "lineIntersectsCircle x1 y1 x2 y2 cx cy rad"
    by (simp add: lineIntersectsCircle_proper [OF nd] Let_def)
qed

lemma hypot_le_iff:
  assumes "0 \<le> r"
  shows "hypot a b \<le> r \<longleftrightarrow> a * a + b * b \<le> r * r"
proof -
  have "sqrt (a * a + b * b) \<le> r \<longleftrightarrow> sqrt (a * a + b * b) \<le> sqrt (r * r)"
    using assms by simp
  also have "\<dots> \<longleftrightarrow> a * a + b * b \<le> r * r"
    by (simp only: real_sqrt_le_iff)
  finally show ?thesis by (simp add: hypot_def)
qed

lemma lineIntersectsCircle_boundary_example:
  "lineIntersectsCircle 0 30 100 30 50 0 30 \<and> \<not> lineIntersectsCircle 0 30 100 30 50 0 29"
  by (simp add: lineIntersectsCircle_def projection_def Let_def hypot_le_iff)

text \<open>
  C4. For a segment of non-zero length the test is as the claim says: the lemmas above
  show that it compares the distance at the clamped projection with the radius, that this
  is the closest point of the segment, that a segment through the centre is reported for
  every radius that is not negative, and that the boundary is inclusive. The claim speaks
  of every segment, and for a segment of zero length the code divides zero by zero: the
  test then reports no intersection, even when the point lies on the centre of the circle.
\<close>

theorem zero_length_segment_misses:
  "\<not> lineIntersectsCircle 100 100 100 100 100 100 30"
  by (simp add: lineIntersectsCircle_def projection_degenerate)

section \<open>The collision pass\<close>

lemma Fruit_slice_detector:
  "collisionDetector (snd (snd (Fruit_slice now dateNow f w))) = collisionDetector w"
  "collisionCalls (snd (snd (Fruit_slice now dateNow f w))) = collisionCalls w"
  by (simp_all add: Fruit_slice_def Let_def playSound_def)

lemma Fruit_slice_fruit: "fst (snd (Fruit_slice now dateNow f w)) = f\<lparr>sliced := True\<rparr>"
  by (simp add: Fruit_slice_def Let_def)

lemma handleFruitCollision_trace:
  "collisionCalls (handleFruitCollision now dateNow i w) = collisionCalls w @ [i]"
  "processed (handleFruitCollision now dateNow i w) = insert i (processed w)"
  by (simp_all add: handleFruitCollision_def Let_def Fruit_slice_detector processed_def
      split: option.split)

lemma handleFruitCollision_fruits:
  "fruits (gameState (handleFruitCollision now dateNow i w)) =
     (fruits (gameState w))[i := (fruits (gameState w) ! i)\<lparr>sliced := True\<rparr>]"
  by (simp add: handleFruitCollision_def Let_def Fruit_slice_fruits Fruit_slice_fruit
      split: option.split)

lemma checkCandidate_cases:
  "checkCandidate now dateNow x1 y1 x2 y2 i w = w \<or>
   (i \<notin> processed w \<and> \<not> sliced (fruits (gameState w) ! i) \<and>
    checkCandidate now dateNow x1 y1 x2 y2 i w = handleFruitCollision now dateNow i w)"
  by (simp add: checkCandidate_def Let_def processed_def)

lemma passInv_refl: "passInv w w"
  by (simp add: passInv_def hitsSince_def)

lemma passInv_hit:
  assumes inv: "passInv w0 w" and new: "i \<notin> processed w"
    and i: "i < length (fruits (gameState w0))" and u: "\<not> sliced (fruits (gameState w) ! i)"
  shows "passInv w0 (handleFruitCollision now dateNow i w)"
proof -
  let ?w' = "handleFruitCollision now dateNow i w"
  have tr: "collisionCalls ?w' = collisionCalls w0 @ (hitsSince w0 w @ [i])"
    using inv by (simp add: handleFruitCollision_trace passInv_def)
  then have hs: "hitsSince w0 ?w' = hitsSince w0 w @ [i]"
    by (simp add: hitsSince_def)
  have fresh: "i \<notin> set (hitsSince w0 w)" "i \<notin> processed w0"
    using inv new by (auto simp add: passInv_def)
  have len: "length (fruits (gameState w)) = length (fruits (gameState w0))"
    using inv by (simp add: passInv_def)
  have same: "fruits (gameState w) ! i = fruits (gameState w0) ! i"
    using inv i fresh by (simp add: passInv_def)
  have old: "\<forall>j < length (fruits (gameState w0)).
         fruits (gameState w) ! j =
           (if j \<in> set (hitsSince w0 w) then (fruits (gameState w0) ! j)\<lparr>sliced := True\<rparr>
            else fruits (gameState w0) ! j)"
    using inv by (simp add: passInv_def)
  have fr: "\<forall>j < length (fruits (gameState w0)).
         fruits (gameState ?w') ! j =
           (if j \<in> set (hitsSince w0 ?w') then (fruits (gameState w0) ! j)\<lparr>sliced := True\<rparr>
            else fruits (gameState w0) ! j)"
    using old i len same fresh
    by (auto simp add: hs handleFruitCollision_fruits nth_list_update)
  have un: "\<forall>j \<in> set (hitsSince w0 ?w').
         j < length (fruits (gameState w0)) \<and> \<not> sliced (fruits (gameState w0) ! j)"
    using inv i u same by (auto simp add: hs passInv_def)
  have basic: "collisionCalls ?w' = collisionCalls w0 @ hitsSince w0 ?w'"
    "distinct (hitsSince w0 ?w')"
    "processed ?w' = processed w0 \<union> set (hitsSince w0 ?w')"
    "set (hitsSince w0 ?w') \<inter> processed w0 = {}"
    "length (fruits (gameState ?w')) = length (fruits (gameState w0))"
    using inv fresh tr len
    by (auto simp add: passInv_def hs handleFruitCollision_trace handleFruitCollision_fruits)
  from basic fr un show ?thesis
    unfolding passInv_def by blast
qed

lemma passInv_checkCandidate:
  "passInv w0 w \<Longrightarrow> i < length (fruits (gameState w0)) \<Longrightarrow>
   passInv w0 (checkCandidate now dateNow x1 y1 x2 y2 i w)"
  using checkCandidate_cases [of now dateNow x1 y1 x2 y2 i w]
  by (auto simp add: passInv_hit)

lemma passInv_segment:
  "passInv w0 w \<Longrightarrow> \<forall>i \<in> set cands. i < length (fruits (gameState w0)) \<Longrightarrow>
   passInv w0 (checkLineSegmentCollisionsForCandidates now dateNow x1 y1 x2 y2 cands w)"
  unfolding checkLineSegmentCollisionsForCandidates_def
  by (induction cands arbitrary: w) (simp_all add: passInv_checkCandidate)

lemma passInv_segments:
  "passInv w0 w \<Longrightarrow> \<forall>i \<in> set cands. i < length (fruits (gameState w0)) \<Longrightarrow>
   passInv w0 (fold (\<lambda>(p1, p2).
                    checkLineSegmentCollisionsForCandidates now dateNow
                      (SwipePoint.x p1) (SwipePoint.y p1) (SwipePoint.x p2) (SwipePoint.y p2)
                      cands) segs w)"
  by (induction segs arbitrary: w) (auto simp add: passInv_segment)

lemma passInv_checkSwipeCollisions: "passInv w (checkSwipeCollisions now dateNow w)"
  by (simp add: checkSwipeCollisions_def Let_def passInv_refl passInv_segments
      split: prod.split)

text \<open>
  C2. One run of \<open>CollisionDetector.update\<close> (the source's frame) resolves any fruit
  at most once, however many of the tested segments intersect it: the fruits handed to
  \<open>handleFruitCollision\<close> in the run are pairwise distinct. The processed set is
  emptied at the start of the run, whatever it held, and at the end holds exactly the
  fruits resolved in the run. Each of them was unsliced before the run and is sliced after
  it. A fruit that is in the processed set, or is sliced, is skipped by the segment test.
\<close>

theorem each_fruit_resolved_once:
  "(let w' = CollisionDetector_update now dateNow w;
        hits = hitsSince w w'
    in collisionCalls w' = collisionCalls w @ hits \<and> distinct hits \<and>
       processedCollisions (collisionDetector w') = set hits \<and>
       (\<forall>j \<in> set hits.
          j < length (fruits (gameState w)) \<and> \<not> sliced (fruits (gameState w) ! j) \<and>
          sliced (fruits (gameState w') ! j))) \<and>
   (i \<in> processedCollisions (collisionDetector w) \<or> sliced (fruits (gameState w) ! i) \<longrightarrow>
      checkCandidate now dateNow x1 y1 x2 y2 i w = w)"
proof -
  let ?w1 = "w\<lparr>collisionDetector := (collisionDetector w)\<lparr>processedCollisions := {}\<rparr>\<rparr>"
  let ?w' = "CollisionDetector_update now dateNow w"
  have start: "collisionCalls ?w1 = collisionCalls w" "processed ?w1 = {}"
    "gameState ?w1 = gameState w"
    by (simp_all add: processed_def)
  have "passInv ?w1 ?w'"
    by (simp add: CollisionDetector_update_def Let_def passInv_refl passInv_checkSwipeCollisions)
  then have "collisionCalls ?w' = collisionCalls w @ hitsSince w ?w' \<and>
      distinct (hitsSince w ?w') \<and> processed ?w' = set (hitsSince w ?w') \<and>
      (\<forall>j \<in> set (hitsSince w ?w').
          j < length (fruits (gameState w)) \<and> \<not> sliced (fruits (gameState w) ! j) \<and>
          sliced (fruits (gameState ?w') ! j))"
    by (simp add: passInv_def hitsSince_def start)
  moreover have "i \<in> processedCollisions (collisionDetector w) \<or> sliced (fruits (gameState w) ! i)
      \<longrightarrow> checkCandidate now dateNow x1 y1 x2 y2 i w = w"
    by (auto simp add: checkCandidate_def Let_def)
  ultimately show ?thesis
    by (simp add: Let_def processed_def)
qed

lemma swipe_crosses_twice:
  "intersectsLine swipeFruit 50 100 100 100" "intersectsLine swipeFruit 100 100 150 100"
  by (simp_all add: intersectsLine_def swipeFruit_def newFruit_def lineIntersectsCircle_def
      projection_def Let_def hypot_le_iff)

lemma swipe_pass:
  "collisionCalls (CollisionDetector_update 10 20 swipeWorld) = [0]"
  "score (gameState (CollisionDetector_update 10 20 swipeWorld)) = 1"
  "effectCalls (CollisionDetector_update 10 20 swipeWorld) = [HandleFruitSlice 0]"
  by (simp_all add: CollisionDetector_update_def checkSwipeCollisions_def Let_def swipeWorld_def
      newWorld_def newGameState_def newCollisionDetector_def trailBox_def isCandidate_def
      checkLineSegmentCollisionsForCandidates_def checkCandidate_def handleFruitCollision_def
      Fruit_slice_def registerSlice_def playSound_def COMBO_THRESHOLD_def
      intersectsLine_def swipeFruit_def newFruit_def lineIntersectsCircle_def
      projection_def hypot_le_iff)

text \<open>
  A swipe of three points whose two segments both cross one fruit: the fruit is resolved
  once, the score is 1, and a further test of the same fruit changes nothing.
\<close>

theorem each_fruit_resolved_once_witness:
  "intersectsLine swipeFruit 50 100 100 100 \<and> intersectsLine swipeFruit 100 100 150 100 \<and>
   collisionCalls (CollisionDetector_update 10 20 swipeWorld) = [0] \<and>
   score (gameState (CollisionDetector_update 10 20 swipeWorld)) = 1 \<and>
   effectCalls (CollisionDetector_update 10 20 swipeWorld) = [HandleFruitSlice 0] \<and>
   processedCollisions (collisionDetector (CollisionDetector_update 10 20 swipeWorld)) = {0} \<and>
   checkCandidate 11 21 100 100 150 100 0 (CollisionDetector_update 10 20 swipeWorld)
     = CollisionDetector_update 10 20 swipeWorld"
proof -
  have e: "collisionCalls swipeWorld = []"
    by (simp add: swipeWorld_def newWorld_def)
  have h: "hitsSince swipeWorld (CollisionDetector_update 10 20 swipeWorld) = [0]"
    by (simp add: hitsSince_def e swipe_pass)
  have p: "processedCollisions (collisionDetector (CollisionDetector_update 10 20 swipeWorld)) = {0}"
    using each_fruit_resolved_once [where w = swipeWorld and now = 10 and dateNow = 20] h
    by (simp add: Let_def)
  have c: "checkCandidate 11 21 100 100 150 100 0 (CollisionDetector_update 10 20 swipeWorld)
     = CollisionDetector_update 10 20 swipeWorld"
    using each_fruit_resolved_once [where w = "CollisionDetector_update 10 20 swipeWorld"
        and i = 0 and now = 11 and dateNow = 21 and ?x1.0 = 100 and ?y1.0 = 100
        and ?x2.0 = 150 and ?y2.0 = 100] p
    by simp
  from swipe_crosses_twice swipe_pass p c show ?thesis by simp
qed

section \<open>The main loop\<close>

lemma floor_one_more:
  fixes acc step :: real
  assumes "0 < step" "step \<le> acc"
  shows "nat \<lfloor>acc / step\<rfloor> = Suc (nat \<lfloor>(acc - step) / step\<rfloor>)"
proof -
  have "(acc - step) / step = acc / step - 1"
    using assms by (simp add: field_simps)
  then have f: "\<lfloor>(acc - step) / step\<rfloor> = \<lfloor>acc / step\<rfloor> - 1"
    by simp
  define z where "z = \<lfloor>acc / step\<rfloor>"
  have "1 \<le> acc / step" using assms by (simp add: field_simps)
  then have "1 \<le> z" unfolding z_def by (simp add: le_floor_iff)
  then have "nat z = Suc (nat (z - 1))" by arith
  with f show ?thesis unfolding z_def by simp
qed

declare stepLoop.simps [simp del]

lemma stepLoop_closed:
  assumes "0 < step"
  shows "stepLoop upd step iterations acc w =
    (let n = min (maxIterations - iterations) (nat \<lfloor>acc / step\<rfloor>)
     in (iterations + n, acc - real n * step, ((upd step) ^^ n) w))"
  using assms
proof (induction upd step iterations acc w rule: stepLoop.induct)
  case (1 upd step iterations acc w)
  show ?case
  proof (cases "acc \<ge> step \<and> iterations < maxIterations")
    case True
    then have m: "maxIterations - iterations = Suc (maxIterations - (iterations + 1))"
      by arith
    from True "1.prems" have fl: "nat \<lfloor>acc / step\<rfloor> = Suc (nat \<lfloor>(acc - step) / step\<rfloor>)"
      by (simp add: floor_one_more)
    have "stepLoop upd step iterations acc w =
        stepLoop upd step (iterations + 1) (acc - step) (upd step w)"
      using True by (subst stepLoop.simps) simp
    also have "\<dots> = (let n = min (maxIterations - (iterations + 1)) (nat \<lfloor>(acc - step) / step\<rfloor>)
         in (iterations + 1 + n, acc - step - real n * step, ((upd step) ^^ n) (upd step w)))"
      using "1.IH" [OF True "1.prems"] .
    also have "\<dots> = (let n = min (maxIterations - iterations) (nat \<lfloor>acc / step\<rfloor>)
         in (iterations + n, acc - real n * step, ((upd step) ^^ n) w))"
      unfolding m fl
      by (simp add: Let_def funpow_swap1 algebra_simps)
    finally show ?thesis .
  next
    case False
    then have "min (maxIterations - iterations) (nat \<lfloor>acc / step\<rfloor>) = 0"
    proof -
      from False consider "acc < step" | "maxIterations \<le> iterations" by force
      then show ?thesis
      proof cases
        case 1
        with "1.prems" have "acc / step < 1" by (simp add: field_simps)
        then have "\<lfloor>acc / step\<rfloor> \<le> 0" by (simp add: floor_le_iff)
        then show ?thesis by simp
      next
        case 2
        then show ?thesis by simp
      qed
    qed
    moreover have "stepLoop upd step iterations acc w = (iterations, acc, w)"
      using False by (subst stepLoop.simps) auto
    ultimately show ?thesis by (simp add: Let_def)
  qed
qed


lemma stepsDue_bound:
  assumes "0 < step"
  shows "stepsDue acc step \<le> maxIterations"
    and "stepsDue acc step = maxIterations \<or> acc - real (stepsDue acc step) * step < step"
proof -
  show "stepsDue acc step \<le> maxIterations" by (simp add: stepsDue_def)
  show "stepsDue acc step = maxIterations \<or> acc - real (stepsDue acc step) * step < step"
  proof (cases "nat \<lfloor>acc / step\<rfloor> < maxIterations")
    case False
    then show ?thesis by (simp add: stepsDue_def)
  next
    case True
    then have n: "stepsDue acc step = nat \<lfloor>acc / step\<rfloor>" by (simp add: stepsDue_def)
    have "acc / step < real_of_int \<lfloor>acc / step\<rfloor> + 1" by linarith
    also have "\<dots> \<le> real (nat \<lfloor>acc / step\<rfloor>) + 1" by simp
    finally have "acc < (real (nat \<lfloor>acc / step\<rfloor>) + 1) * step"
      using assms by (simp add: field_simps)
    then show ?thesis by (simp add: n algebra_simps)
  qed
qed

text \<open>
  C6. One callback of the main loop. A paused callback returns at once and changes
  nothing but the count of frame requests. \<open>startGame\<close> (of an engine that is not
  running) and \<open>resumeGame\<close> (of a running one) leave the engine running, not paused
  and without a time baseline, so the first callback after either only sets the baseline:
  it adds no delta to the accumulator, runs no update and renders nothing.
  A callback that finds no baseline only sets it to its timestamp:
  the accumulator and the globals stay as they are and nothing is rendered. Any other
  callback takes the delta in seconds since the baseline, at most 1/15, adds it to the
  accumulator and runs the fixed-step loop: with the fixed step (1/120 in the engine as
  constructed) positive, the loop runs as many updates as whole steps fit in the
  accumulator, at most 8, and subtracts one step for each; so on exit either 8 updates
  ran or less than a step is left. Then it renders exactly once, whatever the number of
  updates.
\<close>

theorem gameLoop_fixed_steps:
  "maxIterations = 8 \<and> fixedDelta newGameEngine = 1 / 120 \<and>
   lastFrameTime (fst (startGame now (e\<lparr>isRunning := False\<rparr>, w))) = None \<and>
   lastFrameTime (resumeGame (e\<lparr>isRunning := True\<rparr>)) = None \<and>
   (isRunning e \<longrightarrow>
      (let e1 = resumeGame e; r = gameLoop upd timestamp (e1, w)
       in \<not> isPaused e1 \<and> isRunning e1 \<and> lastFrameTime e1 = None \<and>
          accumulator e1 = accumulator e \<and>
          lastFrameTime (fst r) = Some timestamp \<and> accumulator (fst r) = accumulator e \<and>
          renderCalls (fst r) = renderCalls e \<and> snd r = w)) \<and>
   (\<not> isRunning e \<longrightarrow>
      (let s = startGame now (e, w); r = gameLoop upd timestamp s
       in \<not> isPaused (fst s) \<and> isRunning (fst s) \<and> lastFrameTime (fst s) = None \<and>
          accumulator (fst s) = 0 \<and>
          lastFrameTime (fst r) = Some timestamp \<and> accumulator (fst r) = 0 \<and>
          renderCalls (fst r) = renderCalls e \<and> snd r = snd s)) \<and>
   (isPaused e \<longrightarrow>
      (let r = gameLoop upd timestamp (e, w)
       in lastFrameTime (fst r) = lastFrameTime e \<and> accumulator (fst r) = accumulator e \<and>
          renderCalls (fst r) = renderCalls e \<and> snd r = w)) \<and>
   (\<not> isPaused e \<and> noBaseline (lastFrameTime e) \<longrightarrow>
      (let r = gameLoop upd timestamp (e, w)
       in lastFrameTime (fst r) = Some timestamp \<and> accumulator (fst r) = accumulator e \<and>
          renderCalls (fst r) = renderCalls e \<and> snd r = w)) \<and>
   (\<not> isPaused e \<and> \<not> noBaseline (lastFrameTime e) \<and> 0 < fixedDelta e \<longrightarrow>
      (let step = fixedDelta e;
           clamped = min ((timestamp - the (lastFrameTime e)) / 1000) (1 / 15);
           n = stepsDue (accumulator e + clamped) step;
           r = gameLoop upd timestamp (e, w)
       in lastFrameTime (fst r) = Some timestamp \<and>
          accumulator (fst r) = accumulator e + clamped - real n * step \<and>
          snd r = ((upd step) ^^ n) w \<and>
          renderCalls (fst r) = renderCalls e + 1 \<and>
          n \<le> maxIterations \<and> (n = maxIterations \<or> accumulator (fst r) < step)))"
proof -
  have cvals: "maxIterations = 8" "fixedDelta newGameEngine = 1 / 120"
    by (simp_all add: maxIterations_def newGameEngine_def)
  have fresh: "lastFrameTime (fst (startGame now (e\<lparr>isRunning := False\<rparr>, w))) = None"
    "lastFrameTime (resumeGame (e\<lparr>isRunning := True\<rparr>)) = None"
    by (simp_all add: startGame_def resetAllSystems_def Let_def resumeGame_def)
  have resumed: "isRunning e \<longrightarrow>
      (let e1 = resumeGame e; r = gameLoop upd timestamp (e1, w)
       in \<not> isPaused e1 \<and> isRunning e1 \<and> lastFrameTime e1 = None \<and>
          accumulator e1 = accumulator e \<and>
          lastFrameTime (fst r) = Some timestamp \<and> accumulator (fst r) = accumulator e \<and>
          renderCalls (fst r) = renderCalls e \<and> snd r = w)"
    by (simp add: resumeGame_def gameLoop_def Let_def noBaseline_def)
  have started: "\<not> isRunning e \<longrightarrow>
      (let s = startGame now (e, w); r = gameLoop upd timestamp s
       in \<not> isPaused (fst s) \<and> isRunning (fst s) \<and> lastFrameTime (fst s) = None \<and>
          accumulator (fst s) = 0 \<and>
          lastFrameTime (fst r) = Some timestamp \<and> accumulator (fst r) = 0 \<and>
          renderCalls (fst r) = renderCalls e \<and> snd r = snd s)"
    by (simp add: startGame_def resetAllSystems_def gameLoop_def Let_def noBaseline_def)
  have paused: "isPaused e \<longrightarrow>
      (let r = gameLoop upd timestamp (e, w)
       in lastFrameTime (fst r) = lastFrameTime e \<and> accumulator (fst r) = accumulator e \<and>
          renderCalls (fst r) = renderCalls e \<and> snd r = w)"
    by (simp add: gameLoop_def Let_def)
  have base: "\<not> isPaused e \<and> noBaseline (lastFrameTime e) \<longrightarrow>
      (let r = gameLoop upd timestamp (e, w)
       in lastFrameTime (fst r) = Some timestamp \<and> accumulator (fst r) = accumulator e \<and>
          renderCalls (fst r) = renderCalls e \<and> snd r = w)"
    by (simp add: gameLoop_def Let_def)
  have run: "\<not> isPaused e \<and> \<not> noBaseline (lastFrameTime e) \<and> 0 < fixedDelta e \<longrightarrow>
      (let step = fixedDelta e;
           clamped = min ((timestamp - the (lastFrameTime e)) / 1000) (1 / 15);
           n = stepsDue (accumulator e + clamped) step;
           r = gameLoop upd timestamp (e, w)
       in lastFrameTime (fst r) = Some timestamp \<and>
          accumulator (fst r) = accumulator e + clamped - real n * step \<and>
          snd r = ((upd step) ^^ n) w \<and>
          renderCalls (fst r) = renderCalls e + 1 \<and>
          n \<le> maxIterations \<and> (n = maxIterations \<or> accumulator (fst r) < step))"
  proof (intro impI, elim conjE)
    assume np: "\<not> isPaused e" and nb: "\<not> noBaseline (lastFrameTime e)"
      and pos: "0 < fixedDelta e"
    define step where "step = fixedDelta e"
    define clamped where "clamped = min ((timestamp - the (lastFrameTime e)) / 1000) (1 / 15)"
    define a0 where "a0 = accumulator e + clamped"
    define n where "n = stepsDue a0 step"
    have sl: "stepLoop upd step 0 a0 w = (n, a0 - real n * step, ((upd step) ^^ n) w)"
      using pos by (simp add: stepLoop_closed step_def n_def stepsDue_def Let_def)
    have r: "lastFrameTime (fst (gameLoop upd timestamp (e, w))) = Some timestamp"
      "accumulator (fst (gameLoop upd timestamp (e, w))) = a0 - real n * step"
      "snd (gameLoop upd timestamp (e, w)) = ((upd step) ^^ n) w"
      "renderCalls (fst (gameLoop upd timestamp (e, w))) = renderCalls e + 1"
      using np nb sl [unfolded step_def a0_def clamped_def]
      by (simp_all add: gameLoop_def Let_def handleGameOver_def stopGame_def
          step_def a0_def clamped_def)
    have b: "n \<le> maxIterations" "n = maxIterations \<or> a0 - real n * step < step"
      using stepsDue_bound [of step a0] pos by (simp_all add: n_def step_def)
    from r b show "let step = fixedDelta e;
           clamped = min ((timestamp - the (lastFrameTime e)) / 1000) (1 / 15);
           n = stepsDue (accumulator e + clamped) step;
           r = gameLoop upd timestamp (e, w)
       in lastFrameTime (fst r) = Some timestamp \<and>
          accumulator (fst r) = accumulator e + clamped - real n * step \<and>
          snd r = ((upd step) ^^ n) w \<and>
          renderCalls (fst r) = renderCalls e + 1 \<and>
          n \<le> maxIterations \<and> (n = maxIterations \<or> accumulator (fst r) < step)"
      by (simp add: Let_def step_def a0_def clamped_def n_def)
  qed
  from cvals fresh resumed started paused base run show ?thesis by blast
qed

lemma updateGameState_funpow:
  "elapsedTime (gameState ((updateGameState dt ^^ n) w)) = elapsedTime (gameState w) + real n * dt"
  by (induction n) (simp_all add: updateGameState_def algebra_simps)

text \<open>
  Callbacks with \<open>updateGameState\<close> as the update: the first sets the baseline 1000;
  one at 1050 runs 6 steps and leaves nothing; one 2 seconds late, with 1/15 already in the
  accumulator, is clamped to 1/15, runs 8 steps and leaves 1/15. Each of the two renders
  once. A paused callback leaves the baseline and renders nothing. The first callback
  after resuming the paused engine, and the first after starting a new one, only set the
  baseline.
\<close>

theorem gameLoop_fixed_steps_witness:
  "\<not> isPaused runningEngine \<and> noBaseline (lastFrameTime runningEngine) \<and>
   lastFrameTime (fst (gameLoop updateGameState 1000 (runningEngine, newWorld))) = Some 1000 \<and>
   accumulator (fst (gameLoop updateGameState 1000 (runningEngine, newWorld))) = 0 \<and>
   renderCalls (fst (gameLoop updateGameState 1000 (runningEngine, newWorld))) = 0 \<and>
   snd (gameLoop updateGameState 1000 (runningEngine, newWorld)) = newWorld \<and>
   \<not> isPaused timedEngine \<and> \<not> noBaseline (lastFrameTime timedEngine) \<and>
   0 < fixedDelta timedEngine \<and>
   stepsDue (accumulator timedEngine + min ((1050 - 1000) / 1000) (1 / 15)) (1 / 120) = 6 \<and>
   accumulator (fst (gameLoop updateGameState 1050 (timedEngine, newWorld))) = 0 \<and>
   elapsedTime (gameState (snd (gameLoop updateGameState 1050 (timedEngine, newWorld)))) = 6 / 120 \<and>
   renderCalls (fst (gameLoop updateGameState 1050 (timedEngine, newWorld))) = 1 \<and>
   stepsDue (accumulator loadedEngine + min ((3000 - 1000) / 1000) (1 / 15)) (1 / 120) = 8 \<and>
   accumulator (fst (gameLoop updateGameState 3000 (loadedEngine, newWorld))) = 1 / 15 \<and>
   elapsedTime (gameState (snd (gameLoop updateGameState 3000 (loadedEngine, newWorld)))) = 8 / 120 \<and>
   renderCalls (fst (gameLoop updateGameState 3000 (loadedEngine, newWorld))) = 1 \<and>
   isPaused pausedEngine \<and>
   lastFrameTime (fst (gameLoop updateGameState 3000 (pausedEngine, newWorld))) = Some 1000 \<and>
   renderCalls (fst (gameLoop updateGameState 3000 (pausedEngine, newWorld))) = 0 \<and>
   isRunning pausedEngine \<and> \<not> isPaused (resumeGame pausedEngine) \<and>
   lastFrameTime (fst (gameLoop updateGameState 9000 (resumeGame pausedEngine, newWorld)))
     = Some 9000 \<and>
   accumulator (fst (gameLoop updateGameState 9000 (resumeGame pausedEngine, newWorld))) = 0 \<and>
   renderCalls (fst (gameLoop updateGameState 9000 (resumeGame pausedEngine, newWorld))) = 0 \<and>
   \<not> isRunning newGameEngine \<and>
   isRunning (fst (startGame 5 (newGameEngine, newWorld))) \<and>
   \<not> isPaused (fst (startGame 5 (newGameEngine, newWorld))) \<and>
   lastFrameTime (fst (gameLoop updateGameState 1000 (startGame 5 (newGameEngine, newWorld))))
     = Some 1000 \<and>
   accumulator (fst (gameLoop updateGameState 1000 (startGame 5 (newGameEngine, newWorld)))) = 0 \<and>
   renderCalls (fst (gameLoop updateGameState 1000 (startGame 5 (newGameEngine, newWorld)))) = 0"
proof -
  have f: "\<not> isPaused runningEngine" "lastFrameTime runningEngine = None"
    "accumulator runningEngine = 0" "renderCalls runningEngine = 0"
    "\<not> isPaused timedEngine" "lastFrameTime timedEngine = Some 1000"
    "accumulator timedEngine = 0" "renderCalls timedEngine = 0" "fixedDelta timedEngine = 1 / 120"
    "\<not> isPaused loadedEngine" "lastFrameTime loadedEngine = Some 1000"
    "accumulator loadedEngine = 1 / 15" "renderCalls loadedEngine = 0"
    "fixedDelta loadedEngine = 1 / 120"
    by (simp_all add: runningEngine_def timedEngine_def loadedEngine_def newGameEngine_def)
  have g: "isPaused pausedEngine" "lastFrameTime pausedEngine = Some 1000"
    "renderCalls pausedEngine = 0" "isRunning pausedEngine" "accumulator pausedEngine = 0"
    by (simp_all add: pausedEngine_def pauseGame_def runningEngine_def timedEngine_def
        newGameEngine_def)
  have h: "\<not> isRunning newGameEngine" "renderCalls newGameEngine = 0"
    by (simp_all add: newGameEngine_def)
  have rs: "\<not> isPaused (resumeGame pausedEngine)"
    "lastFrameTime (fst (gameLoop updateGameState 9000 (resumeGame pausedEngine, newWorld)))
       = Some 9000"
    "accumulator (fst (gameLoop updateGameState 9000 (resumeGame pausedEngine, newWorld))) = 0"
    "renderCalls (fst (gameLoop updateGameState 9000 (resumeGame pausedEngine, newWorld))) = 0"
    using gameLoop_fixed_steps [where e = pausedEngine and timestamp = 9000
        and upd = updateGameState and w = newWorld] g
    by (simp_all add: Let_def)
  have st: "isRunning (fst (startGame 5 (newGameEngine, newWorld)))"
    "\<not> isPaused (fst (startGame 5 (newGameEngine, newWorld)))"
    "lastFrameTime (fst (gameLoop updateGameState 1000 (startGame 5 (newGameEngine, newWorld))))
       = Some 1000"
    "accumulator (fst (gameLoop updateGameState 1000 (startGame 5 (newGameEngine, newWorld)))) = 0"
    "renderCalls (fst (gameLoop updateGameState 1000 (startGame 5 (newGameEngine, newWorld)))) = 0"
    using gameLoop_fixed_steps [where e = newGameEngine and timestamp = 1000 and now = 5
        and upd = updateGameState and w = newWorld] h
    by (simp_all add: Let_def)
  have el: "elapsedTime (gameState newWorld) = 0"
    by (simp add: newWorld_def newGameState_def)
  have n6: "stepsDue (1 / 20) (1 / 120) = 6" and n8: "stepsDue (2 / 15) (1 / 120) = 8"
    by (simp_all add: stepsDue_def maxIterations_def)
  have s6: "stepsDue (accumulator timedEngine + min ((1050 - 1000) / 1000) (1 / 15)) (1 / 120) = 6"
    unfolding f by (simp add: n6)
  have s8: "stepsDue (accumulator loadedEngine + min ((3000 - 1000) / 1000) (1 / 15)) (1 / 120) = 8"
    unfolding f by (simp add: n8)
  have a: "lastFrameTime (fst (gameLoop updateGameState 1000 (runningEngine, newWorld))) = Some 1000"
    "accumulator (fst (gameLoop updateGameState 1000 (runningEngine, newWorld))) = 0"
    "renderCalls (fst (gameLoop updateGameState 1000 (runningEngine, newWorld))) = 0"
    "snd (gameLoop updateGameState 1000 (runningEngine, newWorld)) = newWorld"
    using gameLoop_fixed_steps [where e = runningEngine and timestamp = 1000
        and upd = updateGameState and w = newWorld] f
    by (simp_all add: noBaseline_def Let_def)
  have b: "accumulator (fst (gameLoop updateGameState 1050 (timedEngine, newWorld))) = 0"
    "elapsedTime (gameState (snd (gameLoop updateGameState 1050 (timedEngine, newWorld)))) = 6 / 120"
    "renderCalls (fst (gameLoop updateGameState 1050 (timedEngine, newWorld))) = 1"
    using gameLoop_fixed_steps [where e = timedEngine and timestamp = 1050
        and upd = updateGameState and w = newWorld] f(5) el
    unfolding f(6-9)
    by (simp_all add: noBaseline_def Let_def updateGameState_funpow n6)
  have c: "accumulator (fst (gameLoop updateGameState 3000 (loadedEngine, newWorld))) = 1 / 15"
    "elapsedTime (gameState (snd (gameLoop updateGameState 3000 (loadedEngine, newWorld)))) = 8 / 120"
    "renderCalls (fst (gameLoop updateGameState 3000 (loadedEngine, newWorld))) = 1"
    using gameLoop_fixed_steps [where e = loadedEngine and timestamp = 3000
        and upd = updateGameState and w = newWorld] f(10) el
    unfolding f(11-14)
    by (simp_all add: noBaseline_def Let_def updateGameState_funpow n8)
  have d: "lastFrameTime (fst (gameLoop updateGameState 3000 (pausedEngine, newWorld))) = Some 1000"
    "renderCalls (fst (gameLoop updateGameState 3000 (pausedEngine, newWorld))) = 0"
    using gameLoop_fixed_steps [where e = pausedEngine and timestamp = 3000
        and upd = updateGameState and w = newWorld] g
    by (simp_all add: Let_def)
  have pos: "0 < fixedDelta timedEngine" unfolding f by simp
  have nb: "noBaseline (lastFrameTime runningEngine)" "\<not> noBaseline (lastFrameTime timedEngine)"
    unfolding f by (simp_all add: noBaseline_def)
  from f(1,5) nb pos s6 s8 a b c g(1,4) d rs h(1) st show ?thesis
    by blast
qed

section \<open>Two bombs in one swipe\<close>

text \<open>
  A second call of \<open>triggerGameOver\<close> is within reach of the game: a swipe whose
  segment crosses two bombs resolves both in one collision pass, each resolution triggers
  game over, and the pass leaves two high-score entries.
\<close>

lemma two_bombs_in_one_pass:
  "collisionCalls (CollisionDetector_update 10 20 twoBombWorld) = [0, 1]"
  "highScores (gameState (CollisionDetector_update 10 20 twoBombWorld)) =
     [\<lparr>HighScoreEntry.score = 3, date = 20\<rparr>, \<lparr>HighScoreEntry.score = 1, date = 20\<rparr>]"
  by (simp_all add: CollisionDetector_update_def checkSwipeCollisions_def Let_def twoBombWorld_def
      newWorld_def newGameState_def newCollisionDetector_def trailBox_def isCandidate_def
      checkLineSegmentCollisionsForCandidates_def checkCandidate_def handleFruitCollision_def
      Fruit_slice_def registerSlice_def triggerGameOver_def saveHighScore_def playSound_def
      COMBO_THRESHOLD_def intersectsLine_def newFruit_def lineIntersectsCircle_def
      projection_def hypot_le_iff)

end
